theory Spec2Isabelle
  imports Complex_Main "HOL-Library.Char_ord" "HOL-Library.List_Lexorder"
begin

section \<open>jina/logging/base.py: formatters, sinks and logger assembly\<close>

subsection \<open>The regular expression that removes ANSI control sequences\<close>

text \<open>
  Every formatter and the Windows logger use the same substitution,
  \<^verbatim>\<open>re.sub(u'\u001b\[.*?[@-~]', '', s)\<close>: a match starts at ESC followed by an opening
  bracket, then the lazy \<^verbatim>\<open>.*?\<close> runs over the fewest characters (none of them a newline,
  which the dot does not match) up to a character of the class \<^verbatim>\<open>[@-~]\<close>. Matches
  are found from left to right, do not overlap, and are replaced by the empty string.
\<close>

definition ESC :: char where
  "ESC = CHR 0x1B"

definition NEWLINE :: char where
  "NEWLINE = CHR 0x0A"

definition is_final :: "char \<Rightarrow> bool" where
  \<comment> \<open>the character class \<^verbatim>\<open>[@-~]\<close>\<close>
  "is_final c = (CHR ''@'' \<le> c \<and> c \<le> CHR ''~'')"

fun csi_end :: "string \<Rightarrow> string option" where
  \<comment> \<open>\<^verbatim>\<open>.*?[@-~]\<close> matched at the start of the text: what follows the match, if there is one\<close>
  "csi_end [] = None"
| "csi_end (c # cs) =
     (if is_final c then Some cs
      else if c = NEWLINE then None
      else csi_end cs)"

lemma csi_end_length: "csi_end cs = Some r \<Longrightarrow> length r < length cs"
  by (induction cs) (auto split: if_splits)

function strip_ansi :: "string \<Rightarrow> string" where
  "strip_ansi [] = []"
| "strip_ansi (c # cs) =
     (if c = ESC then
        (case cs of
           [] \<Rightarrow> c # strip_ansi cs
         | d # rest \<Rightarrow>
             if d = CHR ''[''
             then (case csi_end rest of
                     Some r \<Rightarrow> strip_ansi r
                   | None \<Rightarrow> c # strip_ansi cs)
             else c # strip_ansi cs)
      else c # strip_ansi cs)"
  by pat_completeness auto
termination
  by (relation "measure length") (auto dest: csi_end_length)

subsection \<open>Text interleaved with control sequences\<close>

text \<open>
  A control sequence in the sense of ECMA-48: ESC, an opening bracket, parameter and
  intermediate bytes (0x20 to 0x3F), and one final byte in the range from \<^verbatim>\<open>@\<close> to
  \<^verbatim>\<open>~\<close>. A message is described as a list of pieces, each plain text without ESC or
  one control sequence.
\<close>

datatype piece = Text string | CSI string char

definition is_param :: "char \<Rightarrow> bool" where
  "is_param c = (CHR 0x20 \<le> c \<and> c \<le> CHR 0x3F)"

fun wf_piece :: "piece \<Rightarrow> bool" where
  "wf_piece (Text t) = (ESC \<notin> set t)"
| "wf_piece (CSI ps f) = (list_all is_param ps \<and> is_final f)"

fun render_piece :: "piece \<Rightarrow> string" where
  "render_piece (Text t) = t"
| "render_piece (CSI ps f) = ESC # CHR ''['' # ps @ [f]"

fun text_of_piece :: "piece \<Rightarrow> string" where
  "text_of_piece (Text t) = t"
| "text_of_piece (CSI ps f) = []"

definition render :: "piece list \<Rightarrow> string" where
  "render ps = concat (map render_piece ps)"

definition plain_text :: "piece list \<Rightarrow> string" where
  "plain_text ps = concat (map text_of_piece ps)"

subsection \<open>Verbosity\<close>

text \<open>
  Modelled from the spec: the enumeration \<^verbatim>\<open>LogVerbosity\<close> of \<^verbatim>\<open>jina/enums.py\<close> is
  not among the sources. The spec gives its five members, their order
  DEBUG < INFO < WARNING < ERROR < CRITICAL, and \<^verbatim>\<open>from_string\<close>, which fails on a
  name that is not one of the five. The members are integers (the code compares them
  with \<^verbatim>\<open><=\<close> and hands \<^verbatim>\<open>.value\<close> to \<^verbatim>\<open>setLevel\<close>); the values are the ones
  of the levels of Python's logging module.
\<close>

datatype LogVerbosity = DEBUG | INFO | WARNING | ERROR | CRITICAL

fun verbosity_value :: "LogVerbosity \<Rightarrow> int" where
  "verbosity_value DEBUG = 10"
| "verbosity_value INFO = 20"
| "verbosity_value WARNING = 30"
| "verbosity_value ERROR = 40"
| "verbosity_value CRITICAL = 50"

datatype error =
    TypeError string
  | AttributeError string
  | ValueError string
  | InvalidVerbosity string

definition from_string :: "string \<Rightarrow> error + LogVerbosity" where
  "from_string s =
     (if s = ''DEBUG'' then Inr DEBUG
      else if s = ''INFO'' then Inr INFO
      else if s = ''WARNING'' then Inr WARNING
      else if s = ''ERROR'' then Inr ERROR
      else if s = ''CRITICAL'' then Inr CRITICAL
      else Inl (InvalidVerbosity s))"

fun level_initial :: "LogVerbosity \<Rightarrow> char" where
  "level_initial DEBUG = CHR ''D''"
| "level_initial INFO = CHR ''I''"
| "level_initial WARNING = CHR ''W''"
| "level_initial ERROR = CHR ''E''"
| "level_initial CRITICAL = CHR ''C''"

subsection \<open>NTLogger\<close>

text \<open>
  The logger for Windows holds a context string and a threshold. Standard output is the
  text written so far; \<^verbatim>\<open>sys.stdout.write\<close> appends to it.
\<close>

record NTLogger =
  nt_context :: string
  nt_log_level :: LogVerbosity

definition planify :: "string \<Rightarrow> string" where
  "planify msg = strip_ansi msg"

definition NTLogger_init :: "string \<Rightarrow> LogVerbosity \<Rightarrow> NTLogger" where
  "NTLogger_init ctx log_level = \<lparr>nt_context = planify ctx, nt_log_level = log_level\<rparr>"

definition stdout_write :: "string \<Rightarrow> string \<Rightarrow> string" where
  "stdout_write text out = out @ text"

definition NTLogger_info :: "NTLogger \<Rightarrow> string \<Rightarrow> string \<Rightarrow> string" where
  "NTLogger_info self msg out =
     (if verbosity_value (nt_log_level self) \<le> verbosity_value INFO
      then stdout_write (''I:'' @ nt_context self @ '':'' @ planify msg) out
      else out)"

definition NTLogger_critical :: "NTLogger \<Rightarrow> string \<Rightarrow> string \<Rightarrow> string" where
  "NTLogger_critical self msg out =
     (if verbosity_value (nt_log_level self) \<le> verbosity_value CRITICAL
      then stdout_write (''C:'' @ nt_context self @ '':'' @ planify msg) out
      else out)"

definition NTLogger_debug :: "NTLogger \<Rightarrow> string \<Rightarrow> string \<Rightarrow> string" where
  "NTLogger_debug self msg out =
     (if verbosity_value (nt_log_level self) \<le> verbosity_value DEBUG
      then stdout_write (''D:'' @ nt_context self @ '':'' @ planify msg) out
      else out)"

definition NTLogger_error :: "NTLogger \<Rightarrow> string \<Rightarrow> string \<Rightarrow> string" where
  "NTLogger_error self msg out =
     (if verbosity_value (nt_log_level self) \<le> verbosity_value ERROR
      then stdout_write (''E:'' @ nt_context self @ '':'' @ planify msg) out
      else out)"

definition NTLogger_warning :: "NTLogger \<Rightarrow> string \<Rightarrow> string \<Rightarrow> string" where
  "NTLogger_warning self msg out =
     (if verbosity_value (nt_log_level self) \<le> verbosity_value WARNING
      then stdout_write (''W:'' @ nt_context self @ '':'' @ planify msg) out
      else out)"

fun NTLogger_method :: "LogVerbosity \<Rightarrow> NTLogger \<Rightarrow> string \<Rightarrow> string \<Rightarrow> string" where
  \<comment> \<open>the method named after a level\<close>
  "NTLogger_method DEBUG = NTLogger_debug"
| "NTLogger_method INFO = NTLogger_info"
| "NTLogger_method WARNING = NTLogger_warning"
| "NTLogger_method ERROR = NTLogger_error"
| "NTLogger_method CRITICAL = NTLogger_critical"

subsection \<open>Python values and \<^verbatim>\<open>json.dumps\<close>\<close>

text \<open>
  The values that a record attribute or an entry of a message mapping can hold. \<open>PObj\<close>
  stands for any object that the default JSON encoder does not know (a set, bytes, an
  instance of a class). \<^verbatim>\<open>json.dumps(obj, sort_keys=True)\<close> is represented by the JSON
  document it writes, with the members of every object in the order in which they are
  written: sorted by key. It raises TypeError at an object it cannot encode.
\<close>

datatype pyval =
    PNone
  | PBool bool
  | PInt int
  | PFloat rat
  | PStr string
  | PList "pyval list"
  | PDict "(string \<times> pyval) list"
  | PObj nat

datatype json =
    JNull
  | JBool bool
  | JInt int
  | JFloat rat
  | JString string
  | JArray "json list"
  | JObject "(string \<times> json) list"

fun sequence_list :: "(error + 'a) list \<Rightarrow> error + 'a list" where
  "sequence_list [] = Inr []"
| "sequence_list (x # xs) =
     (case x of
        Inl e \<Rightarrow> Inl e
      | Inr a \<Rightarrow> (case sequence_list xs of Inl e \<Rightarrow> Inl e | Inr as \<Rightarrow> Inr (a # as)))"

fun sequence_items :: "(string \<times> (error + 'a)) list \<Rightarrow> error + (string \<times> 'a) list" where
  "sequence_items [] = Inr []"
| "sequence_items ((k, x) # xs) =
     (case x of
        Inl e \<Rightarrow> Inl e
      | Inr a \<Rightarrow> (case sequence_items xs of Inl e \<Rightarrow> Inl e | Inr as \<Rightarrow> Inr ((k, a) # as)))"

primrec dumps :: "pyval \<Rightarrow> error + json" where
  "dumps PNone = Inr JNull"
| "dumps (PBool b) = Inr (JBool b)"
| "dumps (PInt i) = Inr (JInt i)"
| "dumps (PFloat x) = Inr (JFloat x)"
| "dumps (PStr s) = Inr (JString s)"
| "dumps (PList xs) =
     (case sequence_list (map dumps xs) of
        Inl e \<Rightarrow> Inl e
      | Inr js \<Rightarrow> Inr (JArray js))"
| "dumps (PDict kvs) =
     (case sequence_items (sort_key fst (map (map_prod id dumps) kvs)) of
        Inl e \<Rightarrow> Inl e
      | Inr js \<Rightarrow> Inr (JObject js))"
| "dumps (PObj n) = Inl (TypeError ''Object is not JSON serializable'')"

subsection \<open>Mappings that are shared by reference\<close>

text \<open>
  A Python dict keeps its entries in insertion order: assigning to a key that is present
  replaces the value in place, assigning to a new key appends. A message that is a dict is
  a reference into a store of dicts, so that two records can hold the same dict.
\<close>

type_synonym dict = "(string \<times> pyval) list"
type_synonym addr = nat
type_synonym heap = "addr \<Rightarrow> dict"

fun dict_set :: "string \<Rightarrow> pyval \<Rightarrow> dict \<Rightarrow> dict" where
  "dict_set k v [] = [(k, v)]"
| "dict_set k v ((k', v') # d) =
     (if k' = k then (k, v) # d else (k', v') # dict_set k v d)"

fun dict_update :: "dict \<Rightarrow> dict \<Rightarrow> dict" where
  \<comment> \<open>\<^verbatim>\<open>d.update(other)\<close>\<close>
  "dict_update [] d = d"
| "dict_update ((k, v) # other) d = dict_update other (dict_set k v d)"

subsection \<open>Log records\<close>

text \<open>
  The message of a record is a string, a dict (held by reference) or any other object.
  The attributes are the ones the formatters read.
\<close>

datatype msg = MStr string | MDict addr | MOther pyval

record log_record =
  created :: rat
  filename :: string
  funcName :: string
  levelname :: string
  levelno :: int
  lineno :: int
  module :: string
  msg :: msg
  name :: string
  pathname :: string
  process :: "int option"
  thread :: "int option"

definition msg_value :: "heap \<Rightarrow> msg \<Rightarrow> pyval" where
  "msg_value h m = (case m of MStr s \<Rightarrow> PStr s | MDict a \<Rightarrow> PDict (h a) | MOther v \<Rightarrow> v)"

definition opt_int :: "int option \<Rightarrow> pyval" where
  "opt_int x = (case x of None \<Rightarrow> PNone | Some i \<Rightarrow> PInt i)"

definition getattr :: "heap \<Rightarrow> log_record \<Rightarrow> string \<Rightarrow> pyval option" where
  \<comment> \<open>\<open>None\<close>: the record has no such attribute\<close>
  "getattr h r k =
     (if k = ''created'' then Some (PFloat (created r))
      else if k = ''filename'' then Some (PStr (filename r))
      else if k = ''funcName'' then Some (PStr (funcName r))
      else if k = ''levelname'' then Some (PStr (levelname r))
      else if k = ''levelno'' then Some (PInt (levelno r))
      else if k = ''lineno'' then Some (PInt (lineno r))
      else if k = ''module'' then Some (PStr (module r))
      else if k = ''msg'' then Some (msg_value h (msg r))
      else if k = ''name'' then Some (PStr (name r))
      else if k = ''pathname'' then Some (PStr (pathname r))
      else if k = ''process'' then Some (opt_int (process r))
      else if k = ''thread'' then Some (opt_int (thread r))
      else None)"

fun dict_of_attrs :: "heap \<Rightarrow> log_record \<Rightarrow> string list \<Rightarrow> dict \<Rightarrow> error + dict" where
  \<comment> \<open>\<^verbatim>\<open>{k: getattr(cr, k) for k in ks}\<close>, the entries added to \<open>d\<close> one by one\<close>
  "dict_of_attrs h cr [] d = Inr d"
| "dict_of_attrs h cr (k # ks) d =
     (case getattr h cr k of
        None \<Rightarrow> Inl (AttributeError k)
      | Some v \<Rightarrow> dict_of_attrs h cr ks (dict_set k v d))"

definition py_str :: "(pyval \<Rightarrow> string) \<Rightarrow> heap \<Rightarrow> msg \<Rightarrow> string" where
  \<comment> \<open>\<^verbatim>\<open>str(m)\<close>: a string is itself; \<open>repr\<close> is what Python prints for any other object\<close>
  "py_str repr h m =
     (case m of MStr s \<Rightarrow> s | MDict a \<Rightarrow> repr (PDict (h a)) | MOther v \<Rightarrow> repr v)"

subsection \<open>The formatters\<close>

text \<open>
  Each \<^verbatim>\<open>format\<close> starts with \<^verbatim>\<open>cr = copy(record)\<close>, a shallow copy: a new record with
  the same attribute values, so a message that is a dict is the same dict in both. The
  record is a value here and the copy is the record itself; what the copy shares with the
  original is in the store. Every \<^verbatim>\<open>format\<close> returns its result and the store.
  \<open>base_format\<close> is \<^verbatim>\<open>Formatter.format\<close> of the logging module with the template of
  the formatter; \<open>colored\<close> is the helper of \<^verbatim>\<open>jina/helper.py\<close>, which is not among
  the sources; \<open>ks\<close> is the order in which the set \<open>KEYS\<close> is iterated.
\<close>

definition MAPPING :: "(string \<times> (string \<times> string option)) list" where
  "MAPPING =
     [(''DEBUG'', (''white'', None)),
      (''INFO'', (''white'', None)),
      (''WARNING'', (''yellow'', Some ''on_grey'')),
      (''ERROR'', (''white'', Some ''on_red'')),
      (''CRITICAL'', (''white'', Some ''on_green''))]"

definition ColorFormatter_format ::
  "(heap \<Rightarrow> msg \<Rightarrow> string \<Rightarrow> string option \<Rightarrow> msg) \<Rightarrow> (heap \<Rightarrow> log_record \<Rightarrow> string) \<Rightarrow>
   heap \<Rightarrow> log_record \<Rightarrow> string \<times> heap" where
  "ColorFormatter_format colored base_format h record =
     (let cr = record;
          seq = (case map_of MAPPING (levelname cr) of
                   Some q \<Rightarrow> q
                 | None \<Rightarrow> the (map_of MAPPING ''INFO''));
          cr = cr\<lparr>msg := colored h (msg cr) (fst seq) (snd seq)\<rparr>
      in (base_format h cr, h))"

definition PlainFormatter_format ::
  "(heap \<Rightarrow> log_record \<Rightarrow> string) \<Rightarrow> heap \<Rightarrow> log_record \<Rightarrow> string \<times> heap" where
  "PlainFormatter_format base_format h record =
     (let cr = record;
          cr = (case msg cr of
                  MStr s \<Rightarrow> cr\<lparr>msg := MStr (strip_ansi s)\<rparr>
                | _ \<Rightarrow> cr)
      in (base_format h cr, h))"

definition KEYS :: "string set" where
  "KEYS = {''created'', ''filename'', ''funcName'', ''levelname'', ''lineno'', ''msg'',
           ''module'', ''name'', ''pathname'', ''process'', ''thread''}"

definition JsonFormatter_format ::
  "(pyval \<Rightarrow> string) \<Rightarrow> string list \<Rightarrow> heap \<Rightarrow> log_record \<Rightarrow> (error + json) \<times> heap" where
  "JsonFormatter_format repr ks h record =
     (let cr = record;
          cr = cr\<lparr>msg := MStr (strip_ansi (py_str repr h (msg cr)))\<rparr>
      in (case dict_of_attrs h cr ks [] of
            Inl e \<Rightarrow> (Inl e, h)
          | Inr d \<Rightarrow> (dumps (PDict d), h)))"

text \<open>
  Modelled from the spec: \<^verbatim>\<open>used_memory\<close> of \<^verbatim>\<open>jina/logging/profile.py\<close> is not among
  the sources; it gives "a current-process memory-usage sample", a number, which is the
  parameter \<open>used_memory\<close>.
\<close>

definition ProfileFormatter_format ::
  "rat \<Rightarrow> heap \<Rightarrow> log_record \<Rightarrow> (error + json) \<times> heap" where
  "ProfileFormatter_format used_memory h record =
     (let cr = record in
      case msg cr of
        MDict a \<Rightarrow>
          (case dict_of_attrs h cr
                  [''created'', ''module'', ''name'', ''pathname'', ''process'', ''thread''] [] of
             Inl e \<Rightarrow> (Inl e, h)
           | Inr other \<Rightarrow>
               let h1 = h(a := dict_update other (h a));
                   h2 = h1(a := dict_set ''memory'' (PFloat used_memory) (h1 a))
               in (dumps (PDict (h2 a)), h2))
      | _ \<Rightarrow> (Inl (TypeError ''profile logger only accepts dict''), h))"

subsection \<open>EventHandler\<close>

text \<open>
  The event object has a slot for the last formatted record and a flag. \<open>format\<close> is
  \<^verbatim>\<open>self.format\<close>, the formatter attached to the handler.
\<close>

record event =
  ev_record :: "string option"
  ev_is_set :: bool

definition EventHandler_emit ::
  "int \<Rightarrow> (heap \<Rightarrow> log_record \<Rightarrow> string \<times> heap) \<Rightarrow> event \<Rightarrow> heap \<Rightarrow> log_record \<Rightarrow> event \<times> heap" where
  "EventHandler_emit self_level format ev h record =
     (if levelno record \<ge> self_level
      then (let (s, h') = format h record
            in (ev\<lparr>ev_record := Some s, ev_is_set := True\<rparr>, h'))
      else (ev, h))"

subsection \<open>The logging module: handlers, loggers and the registry\<close>

text \<open>
  What \<^verbatim>\<open>get_logger\<close> reads and changes of Python's logging module: the root logger and
  the registry of named loggers. A handler is an object; \<open>hid\<close> is its identity, taken
  from a counter when the handler is constructed, so two handlers constructed with the
  same arguments are different handlers. A new handler has level NOTSET (0) and no
  formatter; a new logger has level NOTSET, propagates and has no handlers.
  \<^verbatim>\<open>logging.getLogger(name)\<close> gives the root logger when the name is empty or is the name
  of the root logger, \<^verbatim>\<open>root\<close> (as Python does from version 3.9 on), and otherwise
  the logger registered under the name, which it creates when there is none.
\<close>

datatype formatter =
    ColorFormatter string
  | PlainFormatter string
  | JsonFormatter string
  | ProfileFormatter string

datatype queue = log_queue | profile_queue

datatype stream = stdout | stderr

datatype handler_kind =
    EventHandler nat
  | FileHandler string bool
  | QueueHandler queue
  | StreamHandler stream

record handler =
  hid :: nat
  kind :: handler_kind
  hlevel :: int
  hformatter :: "formatter option"

record logger =
  level :: int
  propagate :: bool
  handlers :: "handler list"

record logging =
  root :: logger
  loggerDict :: "string \<Rightarrow> logger option"
  next_id :: nat

datatype logger_ref = Root | Named string

definition new_logger :: logger where
  "new_logger = \<lparr>level = 0, propagate = True, handlers = []\<rparr>"

definition is_root_name :: "string \<Rightarrow> bool" where
  "is_root_name nm = (nm = [] \<or> nm = ''root'')"

definition getLogger :: "string \<Rightarrow> logging \<Rightarrow> logger_ref \<times> logging" where
  "getLogger nm s =
     (if is_root_name nm then (Root, s)
      else (case loggerDict s nm of
              Some l \<Rightarrow> (Named nm, s)
            | None \<Rightarrow> (Named nm, s\<lparr>loggerDict := (loggerDict s)(nm \<mapsto> new_logger)\<rparr>)))"

definition the_logger :: "logging \<Rightarrow> logger_ref \<Rightarrow> logger" where
  "the_logger s ref =
     (case ref of
        Root \<Rightarrow> root s
      | Named nm \<Rightarrow> (case loggerDict s nm of Some l \<Rightarrow> l | None \<Rightarrow> new_logger))"

definition update_logger :: "logger_ref \<Rightarrow> (logger \<Rightarrow> logger) \<Rightarrow> logging \<Rightarrow> logging" where
  "update_logger ref f s =
     (case ref of
        Root \<Rightarrow> s\<lparr>root := f (root s)\<rparr>
      | Named nm \<Rightarrow> s\<lparr>loggerDict := (loggerDict s)(nm \<mapsto> f (the_logger s ref))\<rparr>)"

definition new_handler :: "handler_kind \<Rightarrow> logging \<Rightarrow> handler \<times> logging" where
  "new_handler k s =
     (\<lparr>hid = next_id s, kind = k, hlevel = 0, hformatter = None\<rparr>,
      s\<lparr>next_id := Suc (next_id s)\<rparr>)"

definition addHandler :: "handler \<Rightarrow> logger \<Rightarrow> logger" where
  "addHandler hdlr lg =
     (if hdlr \<in> set (handlers lg) then lg
      else lg\<lparr>handlers := handlers lg @ [hdlr]\<rparr>)"

subsection \<open>Templates that \<^verbatim>\<open>logging.Formatter\<close> accepts\<close>

text \<open>
  The formatters are subclasses of \<^verbatim>\<open>logging.Formatter\<close> and are constructed with a
  template. From Python 3.8 on the constructor validates the template (style \<^verbatim>\<open>%\<close>): it
  raises ValueError unless the pattern
  \<^verbatim>\<open>%\(\w+\)[#0+ -]*(\*|\d+)?(\.(\*|\d+))?[diouxefgcrsa%]\<close>, without regard to case, is found
  somewhere in the template. \<open>match_field\<close> matches the pattern at the start of a text
  (each part of the pattern takes as many characters as it can, which loses no match
  here); \<open>valid_format\<close> searches for it.
\<close>

definition is_word :: "char \<Rightarrow> bool" where
  \<comment> \<open>\<^verbatim>\<open>\w\<close>: a letter, a digit or the underscore\<close>
  "is_word c =
     ((CHR ''a'' \<le> c \<and> c \<le> CHR ''z'') \<or> (CHR ''A'' \<le> c \<and> c \<le> CHR ''Z'') \<or>
      (CHR ''0'' \<le> c \<and> c \<le> CHR ''9'') \<or> c = CHR ''_'')"

definition is_digit :: "char \<Rightarrow> bool" where
  "is_digit c = (CHR ''0'' \<le> c \<and> c \<le> CHR ''9'')"

definition is_flag :: "char \<Rightarrow> bool" where
  \<comment> \<open>the class \<^verbatim>\<open>[#0+ -]\<close>\<close>
  "is_flag c = (c \<in> set ''#0+ -'')"

definition is_conversion :: "char \<Rightarrow> bool" where
  \<comment> \<open>the class \<^verbatim>\<open>[diouxefgcrsa%]\<close>, in either case\<close>
  "is_conversion c = (c \<in> set ''diouxefgcrsa%DIOUXEFGCRSA'')"

definition match_field :: "string \<Rightarrow> bool" where
  "match_field t =
     (case t of
        p # q # rest \<Rightarrow>
          p = CHR ''%'' \<and> q = CHR ''('' \<and> takeWhile is_word rest \<noteq> [] \<and>
          (case dropWhile is_word rest of
             [] \<Rightarrow> False
           | c # r2 \<Rightarrow>
               c = CHR '')'' \<and>
               (let r3 = dropWhile is_flag r2;
                    r4 = (case r3 of
                            [] \<Rightarrow> r3
                          | d # u \<Rightarrow> if d = CHR ''*'' then u else dropWhile is_digit r3);
                    r5 = (case r4 of
                            d1 # d2 # u \<Rightarrow>
                              if d1 = CHR ''.'' \<and> d2 = CHR ''*'' then u
                              else if d1 = CHR ''.'' \<and> is_digit d2 then dropWhile is_digit u
                              else r4
                          | _ \<Rightarrow> r4)
                in case r5 of [] \<Rightarrow> False | d # u \<Rightarrow> is_conversion d))
      | _ \<Rightarrow> False)"

fun valid_format :: "string \<Rightarrow> bool" where
  "valid_format [] = False"
| "valid_format (c # cs) = (match_field (c # cs) \<or> valid_format cs)"

definition new_formatter :: "(string \<Rightarrow> formatter) \<Rightarrow> string \<Rightarrow> error + formatter" where
  \<comment> \<open>\<^verbatim>\<open>ColorFormatter(fmt)\<close>, \<^verbatim>\<open>JsonFormatter(fmt)\<close>, ...\<close>
  "new_formatter cls fmt = (if valid_format fmt then Inr (cls fmt) else Inl (ValueError fmt))"

subsection \<open>Attaching a handler\<close>

text \<open>
  A step of \<^verbatim>\<open>get_logger\<close> gives the state of the logging module after it, and the error
  if it raised: what a step has changed stays changed when a later step raises.
\<close>

definition attach ::
  "logger_ref \<Rightarrow> handler_kind \<Rightarrow> int option \<Rightarrow> (string \<Rightarrow> formatter) \<Rightarrow> string \<Rightarrow> logging \<Rightarrow>
   (error + unit) \<times> logging" where
  \<comment> \<open>construct a handler, \<^verbatim>\<open>setLevel\<close> when a level is given, construct the formatter,
      \<^verbatim>\<open>setFormatter\<close>, \<^verbatim>\<open>logger.addHandler\<close>\<close>
  "attach ref k lvl cls fmt s =
     (let (hdlr, s) = new_handler k s;
          hdlr = (case lvl of None \<Rightarrow> hdlr | Some l \<Rightarrow> hdlr\<lparr>hlevel := l\<rparr>)
      in case new_formatter cls fmt of
           Inl err \<Rightarrow> (Inl err, s)
         | Inr fmtr \<Rightarrow> (Inr (), update_logger ref (addHandler (hdlr\<lparr>hformatter := Some fmtr\<rparr>)) s))"

definition and_then ::
  "(error + unit) \<times> logging \<Rightarrow> (logging \<Rightarrow> (error + unit) \<times> logging) \<Rightarrow> (error + unit) \<times> logging" where
  \<comment> \<open>the next step runs unless the one before raised\<close>
  "and_then r f = (case fst r of Inl err \<Rightarrow> r | Inr u \<Rightarrow> f (snd r))"

definition skip :: "logging \<Rightarrow> (error + unit) \<times> logging" where
  "skip s = (Inr (), s)"

subsection \<open>get\_logger\<close>

text \<open>
  The environment of a call: \<^verbatim>\<open>os.name\<close>, \<^verbatim>\<open>os.environ\<close> and the start-time stamp
  \<^verbatim>\<open>__uptime__\<close> of the package. The result is a logger of the logging module, given by
  reference, or an \<open>NTLogger\<close>, or the error raised; with it comes the state of the
  logging module after the call.
\<close>

record env =
  os_name :: string
  environ :: "string \<Rightarrow> string option"
  uptime :: string

datatype acquired = Logger logger_ref | NT NTLogger

definition environ_get :: "env \<Rightarrow> string \<Rightarrow> string \<Rightarrow> string" where
  \<comment> \<open>\<^verbatim>\<open>os.environ.get(k, dflt)\<close>\<close>
  "environ_get e k dflt = (case environ e k of None \<Rightarrow> dflt | Some v \<Rightarrow> v)"

definition default_fmt_str :: "string \<Rightarrow> nat \<Rightarrow> string" where
  \<comment> \<open>the context cut to \<open>context_len\<close> characters and right-aligned in that width\<close>
  "default_fmt_str ctx context_len =
     replicate (context_len - length (take context_len ctx)) CHR '' '' @ take context_len ctx
     @ ''@%(process)2d[%(levelname).1s][%(filename).3s:%(funcName).3s:%(lineno)3d]:%(message)s''"

definition configure ::
  "env \<Rightarrow> logger_ref \<Rightarrow> LogVerbosity \<Rightarrow> string \<Rightarrow> bool \<Rightarrow> bool \<Rightarrow> nat option \<Rightarrow> logging \<Rightarrow>
   (error + unit) \<times> logging" where
  \<comment> \<open>the body of \<^verbatim>\<open>if not logger.handlers:\<close>\<close>
  "configure e lg verbose_level fmt_str profiling sse log_event s =
     (let timed_fmt_str = ''%(asctime)s:'' @ fmt_str;
          lvl = verbosity_value verbose_level;
          s = update_logger lg (\<lambda>l. l\<lparr>level := lvl\<rparr>) s;
          s = update_logger lg (\<lambda>l. l\<lparr>handlers := []\<rparr>) s
      in and_then
           (case log_event of
              Some ev \<Rightarrow> attach lg (EventHandler ev) (Some lvl) ColorFormatter fmt_str s
            | None \<Rightarrow> skip s)
           (\<lambda>s.
              if profiling then
                and_then
                  (attach lg (FileHandler (''jina-profile-'' @ uptime e @ ''.json'') True)
                     None ProfileFormatter timed_fmt_str s)
                  (\<lambda>s. if sse
                        then attach lg (QueueHandler profile_queue) (Some lvl)
                               JsonFormatter timed_fmt_str s
                        else skip s)
              else
                and_then
                  (if sse
                   then attach lg (QueueHandler log_queue) (Some lvl) JsonFormatter timed_fmt_str s
                   else skip s)
                  (\<lambda>s.
                     and_then
                       (attach lg (StreamHandler stdout) (Some lvl) ColorFormatter fmt_str s)
                       (\<lambda>s.
                          if environ e ''JINA_LOG_FORMAT'' = Some ''TXT''
                          then attach lg (FileHandler (''jina-'' @ uptime e @ ''.log'') True)
                                 None PlainFormatter timed_fmt_str s
                          else if environ e ''JINA_LOG_FORMAT'' = Some ''JSON''
                          then attach lg (FileHandler (''jina-'' @ uptime e @ ''.json'') True)
                                 None JsonFormatter timed_fmt_str s
                          else skip s))))"

definition remove_root_handlers :: "logging \<Rightarrow> logging" where
  \<comment> \<open>\<^verbatim>\<open>for handler in logging.root.handlers[:]: logging.root.removeHandler(handler)\<close>\<close>
  "remove_root_handlers s = s\<lparr>root := (root s)\<lparr>handlers := []\<rparr>\<rparr>"

definition get_logger ::
  "env \<Rightarrow> string \<Rightarrow> nat \<Rightarrow> bool \<Rightarrow> bool \<Rightarrow> string option \<Rightarrow> nat option \<Rightarrow> logging \<Rightarrow>
   (error + acquired) \<times> logging" where
  "get_logger e ctx context_len profiling sse fmt_str log_event s =
     (let fmt_str = (case fmt_str of
                       None \<Rightarrow> default_fmt_str ctx context_len
                     | Some f \<Rightarrow> if f = [] then default_fmt_str ctx context_len else f)
      in case from_string (environ_get e ''JINA_VERBOSITY'' ''INFO'') of
           Inl err \<Rightarrow> (Inl err, s)
         | Inr verbose_level \<Rightarrow>
             if os_name e = ''nt'' then (Inr (NT (NTLogger_init ctx verbose_level)), s)
             else
               let s = remove_root_handlers s;
                   (lg, s) = getLogger ctx s;
                   s = update_logger lg (\<lambda>l. l\<lparr>propagate := False\<rparr>) s
               in if handlers (the_logger s lg) = []
                  then (case configure e lg verbose_level fmt_str profiling sse log_event s of
                          (Inl err, s) \<Rightarrow> (Inl err, s)
                        | (Inr u, s) \<Rightarrow> (Inr (Logger lg), s))
                  else (Inr (Logger lg), s))"

subsection \<open>Sample inputs\<close>

definition sample_repr :: "pyval \<Rightarrow> string" where
  "sample_repr v = ''<object>''"

definition sample_base_format :: "heap \<Rightarrow> log_record \<Rightarrow> string" where
  \<comment> \<open>the template \<^verbatim>\<open>%(message)s\<close>\<close>
  "sample_base_format h r = py_str sample_repr h (msg r)"

definition sample_format :: "heap \<Rightarrow> log_record \<Rightarrow> string \<times> heap" where
  "sample_format = PlainFormatter_format sample_base_format"

definition sample_heap :: heap where
  \<comment> \<open>dict 0 is \<^verbatim>\<open>{'a': 1}\<close>, dict 1 is \<^verbatim>\<open>{'k': <object>}\<close>\<close>
  "sample_heap = (\<lambda>a. [])(0 := [(''a'', PInt 1)], 1 := [(''k'', PObj 0)])"

definition sample_record :: "LogVerbosity \<Rightarrow> string \<Rightarrow> msg \<Rightarrow> log_record" where
  "sample_record lv lvname m =
     \<lparr>created = 1600000000, filename = ''app.py'', funcName = ''run'', levelname = lvname,
      levelno = verbosity_value lv, lineno = 12, module = ''app'', msg = m, name = ''test'',
      pathname = ''/srv/app.py'', process = Some 4242, thread = Some 1\<rparr>"

definition no_event :: event where
  "no_event = \<lparr>ev_record = None, ev_is_set = False\<rparr>"

definition sample_env :: "string option \<Rightarrow> env" where
  \<comment> \<open>a POSIX system with \<^verbatim>\<open>JINA_VERBOSITY\<close> unset and \<^verbatim>\<open>JINA_LOG_FORMAT\<close> as given\<close>
  "sample_env log_format =
     \<lparr>os_name = ''posix'',
      environ = (\<lambda>k. if k = ''JINA_LOG_FORMAT'' then log_format else None),
      uptime = ''20200401''\<rparr>"

definition initial_logging :: logging where
  \<comment> \<open>the logging module after import: a root logger at WARNING without handlers\<close>
  "initial_logging =
     \<lparr>root = \<lparr>level = 30, propagate = True, handlers = []\<rparr>,
      loggerDict = (\<lambda>nm. None), next_id = 0\<rparr>"

definition sample_logging :: logging where
  \<comment> \<open>a root logger with a handler on standard error, as \<^verbatim>\<open>logging.basicConfig()\<close> leaves
      it, and a logger \<^verbatim>\<open>test\<close> that has a handler already\<close>
  "sample_logging =
     \<lparr>root = \<lparr>level = 30, propagate = True,
              handlers = [\<lparr>hid = 0, kind = StreamHandler stderr, hlevel = 0, hformatter = None\<rparr>]\<rparr>,
      loggerDict = (\<lambda>nm. None)(''test'' \<mapsto>
        \<lparr>level = 20, propagate = False,
         handlers = [\<lparr>hid = 1, kind = StreamHandler stdout, hlevel = 20,
                      hformatter = Some (ColorFormatter ''%(message)s'')\<rparr>]\<rparr>),
      next_id = 2\<rparr>"

definition sinks_after :: "(error + acquired) \<times> logging \<Rightarrow> handler list" where
  \<comment> \<open>the handlers of the logger that a call of \<open>get_logger\<close> returns\<close>
  "sinks_after res =
     (case fst res of
        Inr (Logger lg) \<Rightarrow> handlers (the_logger (snd res) lg)
      | _ \<Rightarrow> [])"

definition state_after :: "(error + acquired) \<times> logging \<Rightarrow> logging" where
  \<comment> \<open>the logging module after a call\<close>
  "state_after res = snd res"

definition is_single_line :: "string \<Rightarrow> bool" where
  \<comment> \<open>a line: text that ends with a newline and holds no other newline\<close>
  "is_single_line t = (t \<noteq> [] \<and> last t = NEWLINE \<and> NEWLINE \<notin> set (butlast t))"

definition is_str :: "msg \<Rightarrow> bool" where
  \<comment> \<open>\<^verbatim>\<open>isinstance(m, str)\<close>\<close>
  "is_str m = (case m of MStr s \<Rightarrow> True | _ \<Rightarrow> False)"

definition is_dict :: "msg \<Rightarrow> bool" where
  \<comment> \<open>\<^verbatim>\<open>isinstance(m, dict)\<close>\<close>
  "is_dict m = (case m of MDict a \<Rightarrow> True | _ \<Rightarrow> False)"

definition serialisable :: "pyval \<Rightarrow> bool" where
  "serialisable v = (case dumps v of Inr j \<Rightarrow> True | Inl err \<Rightarrow> False)"

subsection \<open>Notions used in the statements\<close>

text \<open>
  The members that \<open>dumps\<close> writes for a dict whose values it can encode; the keys of
  \<open>KEYS\<close> in sorted order; and the dict that \<open>JsonFormatter\<close> builds from a record.
\<close>

definition dict_json :: "dict \<Rightarrow> (string \<times> json) list" where
  "dict_json d = map (\<lambda>x. (fst x, projr (snd x))) (sort_key fst (map (map_prod id dumps) d))"

definition json_keys :: "string list" where
  "json_keys = [''created'', ''filename'', ''funcName'', ''levelname'', ''lineno'', ''module'',
                ''msg'', ''name'', ''pathname'', ''process'', ''thread'']"

definition json_dict :: "(pyval \<Rightarrow> string) \<Rightarrow> string list \<Rightarrow> heap \<Rightarrow> log_record \<Rightarrow> dict" where
  "json_dict repr ks h r =
     map (\<lambda>k. (k, the (getattr h (r\<lparr>msg := MStr (strip_ansi (py_str repr h (msg r)))\<rparr>) k))) ks"

text \<open>The dict that \<open>ProfileFormatter\<close> leaves in the store at the address of the message.\<close>

definition profile_dict :: "rat \<Rightarrow> heap \<Rightarrow> log_record \<Rightarrow> addr \<Rightarrow> dict" where
  "profile_dict used_memory h r a =
     dict_set ''memory'' (PFloat used_memory)
       (dict_update
          [(''created'', PFloat (created r)), (''module'', PStr (module r)),
           (''name'', PStr (name r)), (''pathname'', PStr (pathname r)),
           (''process'', opt_int (process r)), (''thread'', opt_int (thread r))]
          (h a))"

text \<open>
  For \<open>get_logger\<close>: the handler that \<open>attach\<close> constructs; "every handler of the logger
  was constructed at or after \<open>i\<close>"; the state in which \<open>get_logger\<close> looks at the
  handlers of the logger; and the template it has chosen by then.
\<close>

definition made :: "nat \<Rightarrow> handler_kind \<Rightarrow> int option \<Rightarrow> formatter \<Rightarrow> handler" where
  "made i k lvl fmtr =
     \<lparr>hid = i, kind = k, hlevel = (case lvl of None \<Rightarrow> 0 | Some l \<Rightarrow> l), hformatter = Some fmtr\<rparr>"

definition fresh_from :: "nat \<Rightarrow> logger_ref \<Rightarrow> logging \<Rightarrow> bool" where
  "fresh_from i lg s = (i \<le> next_id s \<and> (\<forall>h\<in>set (handlers (the_logger s lg)). i \<le> hid h))"

definition prepared :: "string \<Rightarrow> logging \<Rightarrow> logging" where
  \<comment> \<open>the state in which \<open>get_logger\<close> looks at the handlers of the logger\<close>
  "prepared ctx s =
     update_logger (fst (getLogger ctx (remove_root_handlers s))) (\<lambda>l. l\<lparr>propagate := False\<rparr>)
       (snd (getLogger ctx (remove_root_handlers s)))"

definition chosen_fmt_str :: "string \<Rightarrow> nat \<Rightarrow> string option \<Rightarrow> string" where
  "chosen_fmt_str ctx context_len fmt_str =
     (case fmt_str of
        None \<Rightarrow> default_fmt_str ctx context_len
      | Some f \<Rightarrow> if f = [] then default_fmt_str ctx context_len else f)"

section \<open>Properties\<close>

subsection \<open>Stripping removes well-formed control sequences\<close>

lemma not_final_param: "is_param c \<Longrightarrow> \<not> is_final c \<and> c \<noteq> NEWLINE"
proof -
  assume p: "is_param c"
  have a: "\<not> CHR ''@'' \<le> CHR 0x3F" by simp
  have b: "\<not> CHR 0x20 \<le> NEWLINE" by (simp add: NEWLINE_def)
  from p a have "\<not> is_final c"
    unfolding is_param_def is_final_def using order_trans by blast
  moreover from p b have "c \<noteq> NEWLINE"
    unfolding is_param_def by blast
  ultimately show ?thesis by simp
qed

lemma csi_end_params:
  "list_all is_param ps \<Longrightarrow> is_final f \<Longrightarrow> csi_end (ps @ f # s) = Some s"
  by (induction ps) (auto dest: not_final_param)

lemma strip_ansi_text: "ESC \<notin> set t \<Longrightarrow> strip_ansi (t @ s) = t @ strip_ansi s"
  by (induction t) auto

lemma strip_ansi_csi:
  "list_all is_param ps \<Longrightarrow> is_final f \<Longrightarrow> strip_ansi (ESC # CHR ''['' # ps @ f # s) = strip_ansi s"
  by (simp add: csi_end_params)

lemma strip_ansi_pieces:
  "list_all wf_piece ps \<Longrightarrow> strip_ansi (render ps @ s) = plain_text ps @ strip_ansi s"
proof (induction ps)
  case Nil
  then show ?case by (simp add: render_def plain_text_def)
next
  case (Cons p ps)
  then show ?case
    by (cases p) (auto simp: render_def plain_text_def strip_ansi_text csi_end_params)
qed

lemma strip_ansi_render:
  "list_all wf_piece ps \<Longrightarrow> strip_ansi (render ps) = plain_text ps"
  using strip_ansi_pieces [of ps "[]"] by simp

subsection \<open>The verbosity gates\<close>

lemmas NT_defs = NTLogger_init_def NTLogger_info_def NTLogger_debug_def NTLogger_warning_def
  NTLogger_error_def NTLogger_critical_def planify_def stdout_write_def

text \<open>
  C2, as amended. A record passes a verbosity gate exactly when the threshold is at most
  the level of the record, in the order DEBUG < INFO < WARNING < ERROR < CRITICAL: the
  gate of \<open>EventHandler.emit\<close> sets the event for a record of level \<open>lv\<close> exactly when
  \<open>thr \<le> lv\<close>, and the method of \<open>NTLogger\<close> for the level \<open>lv\<close> writes exactly when
  \<open>thr \<le> lv\<close>.
\<close>

theorem verbosity_gate:
  "levelno r = verbosity_value lv \<Longrightarrow>
   (ev_is_set (fst (EventHandler_emit (verbosity_value thr) fmt no_event h r))
      \<longleftrightarrow> verbosity_value thr \<le> verbosity_value lv) \<and>
   (NTLogger_method lv (NTLogger_init ctx thr) m out \<noteq> out
      \<longleftrightarrow> verbosity_value thr \<le> verbosity_value lv) \<and>
   verbosity_value DEBUG < verbosity_value INFO \<and>
   verbosity_value INFO < verbosity_value WARNING \<and>
   verbosity_value WARNING < verbosity_value ERROR \<and>
   verbosity_value ERROR < verbosity_value CRITICAL"
  by (cases lv) (simp_all add: EventHandler_emit_def no_event_def NT_defs split: prod.splits)

theorem verbosity_gate_witness:
  "levelno (sample_record ERROR ''ERROR'' (MStr ''boom'')) = verbosity_value ERROR \<and>
   ev_is_set (fst (EventHandler_emit (verbosity_value INFO) sample_format no_event sample_heap
     (sample_record ERROR ''ERROR'' (MStr ''boom'')))) \<and>
   NTLogger_method ERROR (NTLogger_init ''pod'' INFO) ''boom'' [] \<noteq> []"
  using verbosity_gate [of "sample_record ERROR ''ERROR'' (MStr ''boom'')" ERROR INFO
      sample_format sample_heap "''pod''" "''boom''" "[]"]
  by (simp add: sample_record_def)

text \<open>
  C2 as it is written, "passes exactly when level \<open>\<le>\<close> threshold", fails: with the
  threshold INFO a record of level ERROR passes although ERROR \<open>\<le>\<close> INFO is false, and a
  record of level DEBUG does not pass although DEBUG \<open>\<le>\<close> INFO holds; the same for the
  methods of \<open>NTLogger\<close>.
\<close>

theorem level_below_threshold_counterexample:
  "ev_is_set (fst (EventHandler_emit (verbosity_value INFO) sample_format no_event sample_heap
     (sample_record ERROR ''ERROR'' (MStr ''boom'')))) \<and>
   \<not> verbosity_value ERROR \<le> verbosity_value INFO \<and>
   \<not> ev_is_set (fst (EventHandler_emit (verbosity_value INFO) sample_format no_event sample_heap
     (sample_record DEBUG ''DEBUG'' (MStr ''boom'')))) \<and>
   verbosity_value DEBUG \<le> verbosity_value INFO \<and>
   NTLogger_debug (NTLogger_init ''pod'' INFO) ''boom'' [] = [] \<and>
   NTLogger_error (NTLogger_init ''pod'' INFO) ''boom'' [] = ''E:pod:boom''"
  by (simp add: EventHandler_emit_def no_event_def sample_record_def sample_format_def
      PlainFormatter_format_def NT_defs ESC_def split: prod.splits)

subsection \<open>NTLogger\<close>

text \<open>
  C8, as amended. The constructor of \<open>NTLogger\<close> stores the context with the control
  sequences stripped (for a context made of text and well-formed control sequences, the
  text alone). The method named after the level \<open>lv\<close> appends to standard output exactly
  the text \<open><initial of lv>:<context>:<message stripped>\<close>, with no line terminator, when
  the threshold is at most \<open>lv\<close>, and leaves standard output as it is otherwise.
\<close>

theorem NTLogger_writes:
  "nt_context (NTLogger_init ctx thr) = strip_ansi ctx \<and>
   NTLogger_method lv (NTLogger_init ctx thr) m out =
     (if verbosity_value thr \<le> verbosity_value lv
      then out @ [level_initial lv] @ '':'' @ strip_ansi ctx @ '':'' @ strip_ansi m
      else out) \<and>
   (list_all wf_piece cs \<longrightarrow> nt_context (NTLogger_init (render cs) thr) = plain_text cs)"
  by (cases lv) (simp_all add: NT_defs strip_ansi_render)

theorem NTLogger_writes_witness:
  "list_all wf_piece [CSI ''1;32'' CHR ''m'', Text ''pod'', CSI ''0'' CHR ''m''] \<and>
   nt_context (NTLogger_init (ESC # ''[1;32mpod'' @ ESC # ''[0m'') WARNING) = ''pod'' \<and>
   NTLogger_method ERROR (NTLogger_init (ESC # ''[1;32mpod'' @ ESC # ''[0m'') WARNING)
     (ESC # ''[31mdisk full'' @ ESC # ''[0m'') []
     = ''E:pod:disk full'' \<and>
   NTLogger_method INFO (NTLogger_init (ESC # ''[1;32mpod'' @ ESC # ''[0m'') WARNING)
     (ESC # ''[31mdisk full'' @ ESC # ''[0m'') [] = []"
  using NTLogger_writes [of "ESC # ''[1;32mpod'' @ ESC # ''[0m''" WARNING ERROR
      "ESC # ''[31mdisk full'' @ ESC # ''[0m''" "[]"
      "[CSI ''1;32'' CHR ''m'', Text ''pod'', CSI ''0'' CHR ''m'']"]
    NTLogger_writes [of "ESC # ''[1;32mpod'' @ ESC # ''[0m''" WARNING INFO
      "ESC # ''[31mdisk full'' @ ESC # ''[0m''" "[]" "[]"]
  by (simp add: ESC_def is_final_def is_param_def NEWLINE_def render_def plain_text_def)

text \<open>
  C8 as it is written, "writes a single line", fails: \<^verbatim>\<open>sys.stdout.write\<close> is given the
  text without a line terminator, so what a method writes is not a line, the text of the
  next call follows on the same line, and a message that holds a newline is written as
  two lines.
\<close>

theorem NTLogger_not_a_line_counterexample:
  "NTLogger_warning (NTLogger_init ''ctx'' INFO) ''b'' [] = ''W:ctx:b'' \<and>
   \<not> is_single_line ''W:ctx:b'' \<and>
   NTLogger_error (NTLogger_init ''ctx'' INFO) ''c''
     (NTLogger_warning (NTLogger_init ''ctx'' INFO) ''b'' []) = ''W:ctx:bE:ctx:c'' \<and>
   NTLogger_info (NTLogger_init ''ctx'' INFO) [CHR ''a'', CHR 0x0A, CHR ''b''] []
     = [CHR ''I'', CHR '':'', CHR ''c'', CHR ''t'', CHR ''x'', CHR '':'', CHR ''a'', CHR 0x0A, CHR ''b''] \<and>
   \<not> is_single_line
     [CHR ''I'', CHR '':'', CHR ''c'', CHR ''t'', CHR ''x'', CHR '':'', CHR ''a'', CHR 0x0A, CHR ''b'']"
  by (simp add: NTLogger_init_def NTLogger_info_def NTLogger_warning_def NTLogger_error_def
      planify_def stdout_write_def ESC_def is_single_line_def NEWLINE_def)

subsection \<open>Building and serialising dicts\<close>

lemma dict_set_fresh: "k \<notin> fst ` set d \<Longrightarrow> dict_set k v d = d @ [(k, v)]"
  by (induction d) auto

lemma dict_set_keys: "fst ` set (dict_set k v d) = insert k (fst ` set d)"
  by (induction d) force+

lemma serialisable_iff: "serialisable v \<longleftrightarrow> (\<exists>j. dumps v = Inr j)"
  by (cases "dumps v") (simp_all add: serialisable_def)

lemma dict_of_attrs_distinct:
  "distinct ks \<Longrightarrow> set ks \<inter> fst ` set d = {} \<Longrightarrow> \<forall>k\<in>set ks. getattr h cr k \<noteq> None \<Longrightarrow>
   dict_of_attrs h cr ks d = Inr (d @ map (\<lambda>k. (k, the (getattr h cr k))) ks)"
proof (induction ks arbitrary: d)
  case Nil
  then show ?case by simp
next
  case (Cons k ks)
  from Cons.prems obtain v where v: "getattr h cr k = Some v" by auto
  from Cons.prems have fresh: "k \<notin> fst ` set d" by auto
  have "dict_of_attrs h cr ks (d @ [(k, v)]) =
        Inr ((d @ [(k, v)]) @ map (\<lambda>k. (k, the (getattr h cr k))) ks)"
    using Cons.prems by (intro Cons.IH) auto
  then show ?case using v fresh by (simp add: dict_set_fresh)
qed

lemma sequence_items_all:
  "\<forall>x\<in>set xs. \<exists>j. snd x = Inr j \<Longrightarrow> sequence_items xs = Inr (map (\<lambda>x. (fst x, projr (snd x))) xs)"
proof (induction xs)
  case Nil
  then show ?case by simp
next
  case (Cons x xs)
  then show ?case by (cases x) auto
qed

lemma dumps_dict:
  assumes "\<forall>kv\<in>set d. serialisable (snd kv)"
  shows "dumps (PDict d) =
         Inr (JObject (map (\<lambda>x. (fst x, projr (snd x))) (sort_key fst (map (map_prod id dumps) d))))"
proof -
  have "\<forall>x\<in>set (sort_key fst (map (map_prod id dumps) d)). \<exists>j. snd x = Inr j"
    using assms by (auto simp: serialisable_iff)
  then show ?thesis by (simp add: sequence_items_all)
qed

lemma dict_json_keys_set: "fst ` set (dict_json d) = fst ` set d"
  by (force simp: dict_json_def)

lemma dict_json_sorted: "sorted (map fst (dict_json d))"
proof -
  have "map fst (dict_json d) = map fst (sort_key fst (map (map_prod id dumps) d))"
    by (simp add: dict_json_def comp_def)
  then show ?thesis by simp
qed

lemma dict_json_distinct: "distinct (map fst d) \<Longrightarrow> distinct (map fst (dict_json d))"
proof -
  assume d: "distinct (map fst d)"
  have eq: "map fst (dict_json d) = map fst (sort_key fst (map (map_prod id dumps) d))"
    by (simp add: dict_json_def comp_def)
  have "distinct (map fst (map (map_prod id dumps) d))" using d by (simp add: comp_def)
  then have "distinct (map (map_prod id dumps) d) \<and> inj_on fst (set (map (map_prod id dumps) d))"
    by (simp only: distinct_map)
  then have "distinct (sort_key fst (map (map_prod id dumps) d)) \<and>
             inj_on fst (set (sort_key fst (map (map_prod id dumps) d)))"
    by simp
  then have "distinct (map fst (sort_key fst (map (map_prod id dumps) d)))"
    by (simp only: distinct_map)
  with eq show ?thesis by simp
qed

lemma dict_json_lookup:
  "distinct (map fst d) \<Longrightarrow> (k, v) \<in> set d \<Longrightarrow> map_of (dict_json d) k = Some (projr (dumps v))"
proof -
  assume d: "distinct (map fst d)" and kv: "(k, v) \<in> set d"
  have "(k, projr (dumps v)) \<in> set (dict_json d)"
    using kv by (force simp: dict_json_def)
  with dict_json_distinct [OF d] show ?thesis by simp
qed

subsection \<open>JsonFormatter\<close>

lemma json_keys_sorted: "sorted json_keys"
  by code_simp

lemma json_keys_distinct: "distinct json_keys"
  by (simp add: json_keys_def)

lemma json_keys_set: "set json_keys = KEYS"
  by (auto simp: json_keys_def KEYS_def)

lemma getattr_KEYS:
  "k \<in> KEYS \<Longrightarrow> is_str (msg cr) \<Longrightarrow> \<exists>v. getattr h cr k = Some v \<and> serialisable v"
  by (auto simp: KEYS_def getattr_def serialisable_def opt_int_def msg_value_def is_str_def
      split: option.splits msg.splits)

lemma json_dict_keys: "map fst (json_dict repr ks h r) = ks"
  by (simp add: json_dict_def comp_def)

lemma JsonFormatter_result:
  assumes ks: "distinct ks" "set ks = KEYS"
  shows "JsonFormatter_format repr ks h r = (Inr (JObject (dict_json (json_dict repr ks h r))), h)"
proof -
  let ?cr = "r\<lparr>msg := MStr (strip_ansi (py_str repr h (msg r)))\<rparr>"
  have str: "is_str (msg ?cr)" by (simp add: is_str_def)
  have attrs: "\<forall>k\<in>set ks. getattr h ?cr k \<noteq> None"
    using getattr_KEYS [OF _ str] ks by fastforce
  have "dict_of_attrs h ?cr ks [] = Inr ([] @ json_dict repr ks h r)"
    unfolding json_dict_def using ks attrs by (intro dict_of_attrs_distinct) auto
  moreover have "\<forall>kv\<in>set (json_dict repr ks h r). serialisable (snd kv)"
    using getattr_KEYS [OF _ str, of _ h] ks by (fastforce simp: json_dict_def)
  then have "dumps (PDict (json_dict repr ks h r)) =
             Inr (JObject (dict_json (json_dict repr ks h r)))"
    unfolding dict_json_def by (rule dumps_dict)
  ultimately show ?thesis
    by (simp add: JsonFormatter_format_def Let_def del: dumps.simps)
qed

lemma JsonFormatter_msg:
  assumes ks: "distinct ks" "set ks = KEYS"
  shows "map_of (dict_json (json_dict repr ks h r)) ''msg'' =
         Some (JString (strip_ansi (py_str repr h (msg r))))"
proof -
  have "''msg'' \<in> set ks" using ks by (simp add: KEYS_def)
  then have "(''msg'', PStr (strip_ansi (py_str repr h (msg r)))) \<in> set (json_dict repr ks h r)"
    by (force simp: json_dict_def getattr_def msg_value_def)
  moreover have "distinct (map fst (json_dict repr ks h r))"
    using ks by (simp add: json_dict_keys)
  ultimately show ?thesis using dict_json_lookup by fastforce
qed

lemma JsonFormatter_keys_list:
  assumes ks: "distinct ks" "set ks = KEYS"
  shows "map fst (dict_json (json_dict repr ks h r)) = json_keys"
proof -
  let ?js = "dict_json (json_dict repr ks h r)"
  have "sorted (map fst ?js)" by (rule dict_json_sorted)
  moreover have "distinct (map fst ?js)"
    using ks by (intro dict_json_distinct) (simp add: json_dict_keys)
  moreover have "set (map fst ?js) = set json_keys"
    using ks json_keys_set dict_json_keys_set [of "json_dict repr ks h r"]
      json_dict_keys [of repr ks h r]
    by (metis list.set_map)
  ultimately show ?thesis
    using json_keys_sorted json_keys_distinct by (intro sorted_distinct_set_unique)
qed

text \<open>
  C6. For every record, whatever the order in which the set \<open>KEYS\<close> is iterated,
  \<open>JsonFormatter.format\<close> returns a JSON object whose keys are exactly created, filename,
  funcName, levelname, lineno, module, msg, name, pathname, process and thread, each once,
  in sorted order; it does not raise and leaves the store as it is.
\<close>

theorem JsonFormatter_output:
  "distinct ks \<Longrightarrow> set ks = KEYS \<Longrightarrow>
   \<exists>js. JsonFormatter_format repr ks h r = (Inr (JObject js), h) \<and>
        map fst js = [''created'', ''filename'', ''funcName'', ''levelname'', ''lineno'',
                      ''module'', ''msg'', ''name'', ''pathname'', ''process'', ''thread''] \<and>
        sorted (map fst js) \<and> distinct (map fst js) \<and> set (map fst js) = KEYS"
proof -
  assume ks: "distinct ks" "set ks = KEYS"
  let ?js = "dict_json (json_dict repr ks h r)"
  have 1: "JsonFormatter_format repr ks h r = (Inr (JObject ?js), h)"
    using ks by (rule JsonFormatter_result)
  have k: "map fst ?js = json_keys" using ks by (rule JsonFormatter_keys_list)
  have 2: "sorted (map fst ?js) \<and> distinct (map fst ?js) \<and> set (map fst ?js) = KEYS"
    unfolding k using json_keys_sorted json_keys_distinct json_keys_set by simp
  from 1 k 2 show ?thesis unfolding json_keys_def by (intro exI [of _ ?js] conjI) simp_all
qed

theorem JsonFormatter_output_witness:
  "distinct [''msg'', ''created'', ''thread'', ''name'', ''filename'', ''process'', ''lineno'',
             ''funcName'', ''pathname'', ''levelname'', ''module''] \<and>
   set [''msg'', ''created'', ''thread'', ''name'', ''filename'', ''process'', ''lineno'',
        ''funcName'', ''pathname'', ''levelname'', ''module''] = KEYS \<and>
   fst (JsonFormatter_format sample_repr
     [''msg'', ''created'', ''thread'', ''name'', ''filename'', ''process'', ''lineno'',
      ''funcName'', ''pathname'', ''levelname'', ''module'']
     sample_heap (sample_record INFO ''INFO'' (MStr ''ready'')))
   = Inr (JObject
       [(''created'', JFloat 1600000000), (''filename'', JString ''app.py''),
        (''funcName'', JString ''run''), (''levelname'', JString ''INFO''),
        (''lineno'', JInt 12), (''module'', JString ''app''), (''msg'', JString ''ready''),
        (''name'', JString ''test''), (''pathname'', JString ''/srv/app.py''),
        (''process'', JInt 4242), (''thread'', JInt 1)])"
proof -
  have d: "distinct [''msg'', ''created'', ''thread'', ''name'', ''filename'', ''process'',
             ''lineno'', ''funcName'', ''pathname'', ''levelname'', ''module'']" by simp
  have s: "set [''msg'', ''created'', ''thread'', ''name'', ''filename'', ''process'', ''lineno'',
        ''funcName'', ''pathname'', ''levelname'', ''module''] = KEYS"
    by (auto simp: KEYS_def)
  have "fst (JsonFormatter_format sample_repr
     [''msg'', ''created'', ''thread'', ''name'', ''filename'', ''process'', ''lineno'',
      ''funcName'', ''pathname'', ''levelname'', ''module'']
     sample_heap (sample_record INFO ''INFO'' (MStr ''ready'')))
   = Inr (JObject
       [(''created'', JFloat 1600000000), (''filename'', JString ''app.py''),
        (''funcName'', JString ''run''), (''levelname'', JString ''INFO''),
        (''lineno'', JInt 12), (''module'', JString ''app''), (''msg'', JString ''ready''),
        (''name'', JString ''test''), (''pathname'', JString ''/srv/app.py''),
        (''process'', JInt 4242), (''thread'', JInt 1)])"
    by code_simp
  with d s JsonFormatter_output [OF d s, of sample_repr sample_heap
      "sample_record INFO ''INFO'' (MStr ''ready'')"]
  show ?thesis by blast
qed

subsection \<open>PlainFormatter and JsonFormatter on control sequences\<close>

text \<open>
  C7. For a string message made of text and well-formed control sequences,
  \<open>PlainFormatter.format\<close> applies the template to the record whose message is the text
  alone, and the \<open>msg\<close> member of the object that \<open>JsonFormatter.format\<close> returns is the
  text alone. For the message ESC[31mhelloESC[0m both give \<open>hello\<close>.
\<close>

theorem formatters_strip_control_sequences:
  "list_all wf_piece ps \<Longrightarrow> msg r = MStr (render ps) \<Longrightarrow> distinct ks \<Longrightarrow> set ks = KEYS \<Longrightarrow>
   PlainFormatter_format base_format h r = (base_format h (r\<lparr>msg := MStr (plain_text ps)\<rparr>), h) \<and>
   (\<exists>js. JsonFormatter_format repr ks h r = (Inr (JObject js), h) \<and>
         map_of js ''msg'' = Some (JString (plain_text ps)))"
proof -
  assume ps: "list_all wf_piece ps" and m: "msg r = MStr (render ps)"
    and ks: "distinct ks" "set ks = KEYS"
  have "PlainFormatter_format base_format h r = (base_format h (r\<lparr>msg := MStr (plain_text ps)\<rparr>), h)"
    using m by (simp add: PlainFormatter_format_def strip_ansi_render [OF ps])
  moreover have "JsonFormatter_format repr ks h r =
      (Inr (JObject (dict_json (json_dict repr ks h r))), h)"
    using ks by (rule JsonFormatter_result)
  moreover have "map_of (dict_json (json_dict repr ks h r)) ''msg'' = Some (JString (plain_text ps))"
    using JsonFormatter_msg [OF ks, of repr h r] m
    by (simp add: py_str_def strip_ansi_render [OF ps])
  ultimately show ?thesis by blast
qed

theorem formatters_strip_control_sequences_witness:
  "list_all wf_piece [CSI ''31'' CHR ''m'', Text ''hello'', CSI ''0'' CHR ''m''] \<and>
   render [CSI ''31'' CHR ''m'', Text ''hello'', CSI ''0'' CHR ''m'']
     = CHR 0x1B # ''[31mhello'' @ CHR 0x1B # ''[0m'' \<and>
   fst (PlainFormatter_format sample_base_format sample_heap
     (sample_record INFO ''INFO'' (MStr (CHR 0x1B # ''[31mhello'' @ CHR 0x1B # ''[0m'')))) = ''hello'' \<and>
   fst (JsonFormatter_format sample_repr json_keys sample_heap
     (sample_record INFO ''INFO'' (MStr (CHR 0x1B # ''[31mhello'' @ CHR 0x1B # ''[0m''))))
   = Inr (JObject
       [(''created'', JFloat 1600000000), (''filename'', JString ''app.py''),
        (''funcName'', JString ''run''), (''levelname'', JString ''INFO''),
        (''lineno'', JInt 12), (''module'', JString ''app''), (''msg'', JString ''hello''),
        (''name'', JString ''test''), (''pathname'', JString ''/srv/app.py''),
        (''process'', JInt 4242), (''thread'', JInt 1)])"
proof -
  let ?ps = "[CSI ''31'' CHR ''m'', Text ''hello'', CSI ''0'' CHR ''m'']"
  let ?r = "sample_record INFO ''INFO'' (MStr (CHR 0x1B # ''[31mhello'' @ CHR 0x1B # ''[0m''))"
  have wf: "list_all wf_piece ?ps"
    by (simp add: is_param_def is_final_def ESC_def)
  have rd: "render ?ps = CHR 0x1B # ''[31mhello'' @ CHR 0x1B # ''[0m''"
    by (simp add: render_def ESC_def)
  have m: "msg ?r = MStr (render ?ps)"
    by (simp add: sample_record_def rd)
  have pt: "plain_text ?ps = ''hello''" by (simp add: plain_text_def)
  have js: "fst (JsonFormatter_format sample_repr json_keys sample_heap ?r)
   = Inr (JObject
       [(''created'', JFloat 1600000000), (''filename'', JString ''app.py''),
        (''funcName'', JString ''run''), (''levelname'', JString ''INFO''),
        (''lineno'', JInt 12), (''module'', JString ''app''), (''msg'', JString ''hello''),
        (''name'', JString ''test''), (''pathname'', JString ''/srv/app.py''),
        (''process'', JInt 4242), (''thread'', JInt 1)])"
    by code_simp
  have "fst (PlainFormatter_format sample_base_format sample_heap ?r) = ''hello''"
    using formatters_strip_control_sequences [OF wf m json_keys_distinct json_keys_set,
        of sample_base_format sample_heap sample_repr]
    by (simp add: pt sample_base_format_def py_str_def)
  with wf rd js show ?thesis by simp
qed

text \<open>
  C10. For a record whose message is not a string, \<open>PlainFormatter.format\<close> applies the
  template to the record as it is: the message is neither stripped nor made a string.
  \<open>JsonFormatter.format\<close> makes the message a string with \<^verbatim>\<open>str\<close> and strips it.
\<close>

theorem PlainFormatter_keeps_other_messages:
  "\<not> is_str (msg r) \<Longrightarrow> distinct ks \<Longrightarrow> set ks = KEYS \<Longrightarrow>
   PlainFormatter_format base_format h r = (base_format h r, h) \<and>
   (\<exists>js. JsonFormatter_format repr ks h r = (Inr (JObject js), h) \<and>
         map_of js ''msg'' = Some (JString (strip_ansi (py_str repr h (msg r)))))"
proof -
  assume m: "\<not> is_str (msg r)" and ks: "distinct ks" "set ks = KEYS"
  have "PlainFormatter_format base_format h r = (base_format h r, h)"
    using m by (cases "msg r") (simp_all add: PlainFormatter_format_def is_str_def)
  moreover have "JsonFormatter_format repr ks h r =
      (Inr (JObject (dict_json (json_dict repr ks h r))), h)"
    using ks by (rule JsonFormatter_result)
  ultimately show ?thesis using JsonFormatter_msg [OF ks, of repr h r] by blast
qed

theorem PlainFormatter_keeps_other_messages_witness:
  "\<not> is_str (msg (sample_record INFO ''INFO'' (MOther (PObj 3)))) \<and>
   PlainFormatter_format sample_base_format sample_heap (sample_record INFO ''INFO'' (MOther (PObj 3)))
     = (sample_base_format sample_heap (sample_record INFO ''INFO'' (MOther (PObj 3))), sample_heap) \<and>
   fst (JsonFormatter_format sample_repr json_keys sample_heap
     (sample_record INFO ''INFO'' (MOther (PObj 3))))
   = Inr (JObject
       [(''created'', JFloat 1600000000), (''filename'', JString ''app.py''),
        (''funcName'', JString ''run''), (''levelname'', JString ''INFO''),
        (''lineno'', JInt 12), (''module'', JString ''app''), (''msg'', JString ''<object>''),
        (''name'', JString ''test''), (''pathname'', JString ''/srv/app.py''),
        (''process'', JInt 4242), (''thread'', JInt 1)])"
proof -
  let ?r = "sample_record INFO ''INFO'' (MOther (PObj 3))"
  have m: "\<not> is_str (msg ?r)" by (simp add: sample_record_def is_str_def)
  have js: "fst (JsonFormatter_format sample_repr json_keys sample_heap ?r)
   = Inr (JObject
       [(''created'', JFloat 1600000000), (''filename'', JString ''app.py''),
        (''funcName'', JString ''run''), (''levelname'', JString ''INFO''),
        (''lineno'', JInt 12), (''module'', JString ''app''), (''msg'', JString ''<object>''),
        (''name'', JString ''test''), (''pathname'', JString ''/srv/app.py''),
        (''process'', JInt 4242), (''thread'', JInt 1)])"
    by code_simp
  from PlainFormatter_keeps_other_messages [OF m json_keys_distinct json_keys_set,
      of sample_base_format sample_heap sample_repr] m js
  show ?thesis by blast
qed

subsection \<open>ProfileFormatter\<close>

lemma dict_update_keys: "fst ` set (dict_update other d) = fst ` set d \<union> fst ` set other"
  by (induction other d rule: dict_update.induct) (auto simp: dict_set_keys)

lemma dict_set_values:
  "\<forall>kv\<in>set d. P (snd kv) \<Longrightarrow> P v \<Longrightarrow> \<forall>kv\<in>set (dict_set k v d). P (snd kv)"
proof (induction d)
  case Nil
  then show ?case by simp
next
  case (Cons x d)
  then have "\<forall>kv\<in>set (dict_set k v d). P (snd kv)" by simp
  with Cons.prems show ?case by (cases x) (cases "fst x = k", auto)
qed

lemma dict_update_values:
  "\<forall>kv\<in>set d. P (snd kv) \<Longrightarrow> \<forall>kv\<in>set other. P (snd kv) \<Longrightarrow>
   \<forall>kv\<in>set (dict_update other d). P (snd kv)"
proof (induction other d rule: dict_update.induct)
  case (1 d)
  then show ?case by simp
next
  case (2 k v other d)
  have "\<forall>kv\<in>set (dict_set k v d). P (snd kv)"
    using 2 by (intro dict_set_values) auto
  then show ?case using 2 by simp
qed

lemma sequence_list_error:
  "sequence_list xs = Inl e \<Longrightarrow> \<exists>x\<in>set xs. x = Inl e"
  by (induction xs) (auto split: sum.splits)

lemma sequence_items_error:
  "sequence_items xs = Inl e \<Longrightarrow> \<exists>x\<in>set xs. snd x = Inl e"
  by (induction xs rule: sequence_items.induct) (auto split: sum.splits)

lemma dumps_error: "dumps v = Inl e \<Longrightarrow> e = TypeError ''Object is not JSON serializable''"
proof (induction v)
  case (PList xs)
  then show ?case
    by (auto split: sum.splits dest!: sequence_list_error)
next
  case (PDict kvs)
  then show ?case
    by (fastforce split: sum.splits dest!: sequence_items_error)
qed simp_all

lemma profile_attrs:
  "dict_of_attrs h r [''created'', ''module'', ''name'', ''pathname'', ''process'', ''thread''] [] =
   Inr [(''created'', PFloat (created r)), (''module'', PStr (module r)),
        (''name'', PStr (name r)), (''pathname'', PStr (pathname r)),
        (''process'', opt_int (process r)), (''thread'', opt_int (thread r))]"
  by (simp add: getattr_def)

lemma ProfileFormatter_dict:
  "msg r = MDict a \<Longrightarrow>
   ProfileFormatter_format used_memory h r =
     (dumps (PDict (profile_dict used_memory h r a)), h(a := profile_dict used_memory h r a))"
  by (simp add: ProfileFormatter_format_def profile_attrs profile_dict_def Let_def
      del: dumps.simps dict_update.simps dict_set.simps dict_of_attrs.simps)

lemma ProfileFormatter_other:
  "\<not> is_dict (msg r) \<Longrightarrow>
   ProfileFormatter_format used_memory h r =
     (Inl (TypeError ''profile logger only accepts dict''), h)"
  by (cases "msg r") (simp_all add: ProfileFormatter_format_def is_dict_def)

lemma profile_dict_keys:
  "fst ` set (profile_dict used_memory h r a) =
   fst ` set (h a) \<union> {''created'', ''module'', ''name'', ''pathname'', ''process'', ''thread'', ''memory''}"
  by (auto simp: profile_dict_def dict_set_keys dict_update_keys
      simp del: dict_update.simps dict_set.simps)

lemma profile_dict_serialisable:
  assumes "\<forall>kv\<in>set (h a). serialisable (snd kv)"
  shows "\<forall>kv\<in>set (profile_dict used_memory h r a). serialisable (snd kv)"
  unfolding profile_dict_def
  by (intro dict_set_values dict_update_values assms)
     (auto simp: serialisable_def opt_int_def split: option.splits)

text \<open>
  C3, as amended. \<open>ProfileFormatter.format\<close> raises the TypeError of its contract,
  "profile logger only accepts dict", exactly when the message is not a mapping. When the
  message is a mapping (with string keys) all of whose values \<open>json.dumps\<close> can encode, the
  result is a JSON object with sorted keys, whose keys are the keys of the mapping and
  created, module, name, pathname, process, thread and memory.
\<close>

theorem ProfileFormatter_contract:
  "(fst (ProfileFormatter_format used_memory h r) = Inl (TypeError ''profile logger only accepts dict'')
      \<longleftrightarrow> \<not> is_dict (msg r)) \<and>
   (msg r = MDict a \<and> (\<forall>kv\<in>set (h a). serialisable (snd kv)) \<longrightarrow>
      (\<exists>js. fst (ProfileFormatter_format used_memory h r) = Inr (JObject js) \<and>
            sorted (map fst js) \<and>
            set (map fst js) =
              fst ` set (h a) \<union>
              {''created'', ''module'', ''name'', ''pathname'', ''process'', ''thread'', ''memory''}))"
proof (intro conjI impI)
  show "fst (ProfileFormatter_format used_memory h r) = Inl (TypeError ''profile logger only accepts dict'')
      \<longleftrightarrow> \<not> is_dict (msg r)"
  proof (cases "msg r")
    case (MDict b)
    have "fst (ProfileFormatter_format used_memory h r) \<noteq> Inl (TypeError ''profile logger only accepts dict'')"
    proof
      assume "fst (ProfileFormatter_format used_memory h r) = Inl (TypeError ''profile logger only accepts dict'')"
      then have "dumps (PDict (profile_dict used_memory h r b)) = Inl (TypeError ''profile logger only accepts dict'')"
        by (simp add: ProfileFormatter_dict [OF MDict] del: dumps.simps)
      from dumps_error [OF this] show False by simp
    qed
    then show ?thesis using MDict by (simp add: is_dict_def)
  qed (simp_all add: ProfileFormatter_other is_dict_def)
next
  assume a: "msg r = MDict a \<and> (\<forall>kv\<in>set (h a). serialisable (snd kv))"
  let ?d = "profile_dict used_memory h r a"
  have "dumps (PDict ?d) = Inr (JObject (dict_json ?d))"
    unfolding dict_json_def using a by (intro dumps_dict profile_dict_serialisable) simp
  then have "fst (ProfileFormatter_format used_memory h r) = Inr (JObject (dict_json ?d))"
    using a by (simp add: ProfileFormatter_dict del: dumps.simps)
  moreover have "sorted (map fst (dict_json ?d))" by (rule dict_json_sorted)
  moreover have "set (map fst (dict_json ?d)) =
      fst ` set (h a) \<union> {''created'', ''module'', ''name'', ''pathname'', ''process'', ''thread'', ''memory''}"
    using dict_json_keys_set [of ?d] profile_dict_keys [of used_memory h r a] by simp
  ultimately show "\<exists>js. fst (ProfileFormatter_format used_memory h r) = Inr (JObject js) \<and>
            sorted (map fst js) \<and>
            set (map fst js) =
              fst ` set (h a) \<union>
              {''created'', ''module'', ''name'', ''pathname'', ''process'', ''thread'', ''memory''}"
    by blast
qed

theorem ProfileFormatter_contract_witness:
  "msg (sample_record INFO ''INFO'' (MDict 0)) = MDict 0 \<and>
   sample_heap 0 = [(''a'', PInt 1)] \<and> serialisable (PInt 1) \<and>
   fst (ProfileFormatter_format 7 sample_heap (sample_record INFO ''INFO'' (MDict 0)))
   = Inr (JObject
       [(''a'', JInt 1), (''created'', JFloat 1600000000), (''memory'', JFloat 7),
        (''module'', JString ''app''), (''name'', JString ''test''),
        (''pathname'', JString ''/srv/app.py''), (''process'', JInt 4242), (''thread'', JInt 1)]) \<and>
   \<not> is_dict (msg (sample_record INFO ''INFO'' (MStr ''took 3s''))) \<and>
   fst (ProfileFormatter_format 7 sample_heap (sample_record INFO ''INFO'' (MStr ''took 3s'')))
   = Inl (TypeError ''profile logger only accepts dict'')"
proof -
  have 1: "msg (sample_record INFO ''INFO'' (MDict 0)) = MDict 0"
    by (simp add: sample_record_def)
  have 2: "\<forall>kv\<in>set (sample_heap 0). serialisable (snd kv)"
    by (simp add: sample_heap_def serialisable_def)
  have 3: "fst (ProfileFormatter_format 7 sample_heap (sample_record INFO ''INFO'' (MDict 0)))
   = Inr (JObject
       [(''a'', JInt 1), (''created'', JFloat 1600000000), (''memory'', JFloat 7),
        (''module'', JString ''app''), (''name'', JString ''test''),
        (''pathname'', JString ''/srv/app.py''), (''process'', JInt 4242), (''thread'', JInt 1)])"
    by code_simp
  have 4: "\<not> is_dict (msg (sample_record INFO ''INFO'' (MStr ''took 3s'')))"
    by (simp add: sample_record_def is_dict_def)
  have 5: "sample_heap 0 = [(''a'', PInt 1)] \<and> serialisable (PInt 1)"
    by (simp add: sample_heap_def serialisable_def)
  from ProfileFormatter_contract [of 7 sample_heap "sample_record INFO ''INFO'' (MDict 0)" 0]
    ProfileFormatter_contract [of 7 sample_heap "sample_record INFO ''INFO'' (MStr ''took 3s'')" 0]
    1 2 3 4 5
  show ?thesis by blast
qed

text \<open>
  C3 as it is written, "raises a TypeError if and only if the message is not a mapping",
  fails: for the mapping \<^verbatim>\<open>{'k': <object>}\<close>, whose value the JSON encoder does not know,
  \<^verbatim>\<open>json.dumps\<close> raises a TypeError although the message is a mapping.
\<close>

theorem ProfileFormatter_unserialisable_counterexample:
  "is_dict (msg (sample_record INFO ''INFO'' (MDict 1))) \<and>
   sample_heap 1 = [(''k'', PObj 0)] \<and>
   fst (ProfileFormatter_format 7 sample_heap (sample_record INFO ''INFO'' (MDict 1)))
   = Inl (TypeError ''Object is not JSON serializable'')"
  by code_simp

text \<open>
  C1, at the input where the code departs from it. The record holds the mapping
  \<^verbatim>\<open>{'a': 1}\<close> at address 0. \<^verbatim>\<open>copy(record)\<close> is shallow, so \<^verbatim>\<open>cr.msg\<close> is the same
  mapping, and \<^verbatim>\<open>cr.msg.update(...)\<close> and \<^verbatim>\<open>cr.msg['memory'] = ...\<close> change it in
  place: after \<open>ProfileFormatter.format\<close> the mapping of the original record has seven
  more entries.
\<close>

theorem ProfileFormatter_mutates_shared_message:
  "msg (sample_record INFO ''INFO'' (MDict 0)) = MDict 0 \<and>
   sample_heap 0 = [(''a'', PInt 1)] \<and>
   snd (ProfileFormatter_format 7 sample_heap (sample_record INFO ''INFO'' (MDict 0))) 0
   = [(''a'', PInt 1), (''created'', PFloat 1600000000), (''module'', PStr ''app''),
      (''name'', PStr ''test''), (''pathname'', PStr ''/srv/app.py''), (''process'', PInt 4242),
      (''thread'', PInt 1), (''memory'', PFloat 7)]"
  by code_simp

text \<open>The other three formatters assign a new message to the copy and leave the store alone.\<close>

lemma text_formatters_keep_store:
  "snd (ColorFormatter_format colored base_format h r) = h"
  "snd (PlainFormatter_format base_format h r) = h"
  "snd (JsonFormatter_format repr ks h r) = h"
  by (simp_all add: ColorFormatter_format_def PlainFormatter_format_def JsonFormatter_format_def
      Let_def split: sum.splits)

subsection \<open>Templates that are accepted\<close>

lemma valid_format_append: "valid_format t \<Longrightarrow> valid_format (p @ t)"
  by (induction p) auto

lemma valid_timed: "valid_format (''%(asctime)s:'' @ f)"
  by (simp add: match_field_def is_word_def is_flag_def is_digit_def is_conversion_def)

lemma valid_default: "valid_format (default_fmt_str ctx n)"
proof -
  have "valid_format ''@%(process)2d[%(levelname).1s][%(filename).3s:%(funcName).3s:%(lineno)3d]:%(message)s''"
    by code_simp
  then show ?thesis
    unfolding default_fmt_str_def by (intro valid_format_append)
qed

lemma valid_format_examples:
  "\<not> valid_format ''plain text''"
  "valid_format ''%(message)s''"
  "valid_format ''x %(levelname)-8.3S y''"
  "\<not> valid_format ''%(levelname)-8.y''"
  "valid_format ''%(a)0*.*d''"
  "\<not> valid_format ''%()s %s %d''"
  by code_simp+

subsection \<open>get\_logger\<close>

lemma the_logger_update [simp]: "the_logger (update_logger lg f s) lg = f (the_logger s lg)"
  by (cases lg) (simp_all add: the_logger_def update_logger_def)

lemma next_id_update [simp]: "next_id (update_logger lg f s) = next_id s"
  by (cases lg) (simp_all add: update_logger_def)

lemma root_update_named [simp]: "root (update_logger (Named nm) f s) = root s"
  by (simp add: update_logger_def)

lemma attach_valid:
  "valid_format fmt \<Longrightarrow>
   attach lg k lvl cls fmt s =
     (Inr (), update_logger lg (addHandler (made (next_id s) k lvl (cls fmt)))
                (s\<lparr>next_id := Suc (next_id s)\<rparr>))"
  by (cases lvl) (simp_all add: attach_def new_handler_def new_formatter_def made_def)

lemma attach_invalid:
  "\<not> valid_format fmt \<Longrightarrow>
   attach lg k lvl cls fmt s = (Inl (ValueError fmt), s\<lparr>next_id := Suc (next_id s)\<rparr>)"
  by (simp add: attach_def new_handler_def new_formatter_def)

lemma the_logger_next_id [simp]: "the_logger (s\<lparr>next_id := i\<rparr>) lg = the_logger s lg"
  by (cases lg) (simp_all add: the_logger_def)

lemma update_logger_next_id:
  "update_logger lg f (s\<lparr>next_id := i\<rparr>) = (update_logger lg f s)\<lparr>next_id := i\<rparr>"
  by (cases lg) (simp_all add: update_logger_def the_logger_def)

lemma fst_attach: "fst (attach lg k lvl cls fmt s) = Inr () \<longleftrightarrow> valid_format fmt"
  by (cases "valid_format fmt") (simp_all add: attach_valid attach_invalid)

lemma next_id_attach [simp]: "next_id (snd (attach lg k lvl cls fmt s)) = Suc (next_id s)"
  by (cases "valid_format fmt") (simp_all add: attach_valid attach_invalid)

lemma root_attach_named [simp]: "root (snd (attach (Named nm) k lvl cls fmt s)) = root s"
  by (cases "valid_format fmt") (simp_all add: attach_valid attach_invalid)

lemma attach_nonempty:
  "fst (attach lg k lvl cls fmt s) = Inr () \<Longrightarrow> handlers (the_logger (snd (attach lg k lvl cls fmt s)) lg) \<noteq> []"
  by (cases "valid_format fmt") (auto simp: attach_valid attach_invalid addHandler_def)

lemma attach_keeps_nonempty:
  "handlers (the_logger s lg) \<noteq> [] \<Longrightarrow> handlers (the_logger (snd (attach lg k lvl cls fmt s)) lg) \<noteq> []"
  by (cases "valid_format fmt") (auto simp: attach_valid attach_invalid addHandler_def)

lemma fresh_from_attach: "fresh_from i lg s \<Longrightarrow> fresh_from i lg (snd (attach lg k lvl cls fmt s))"
  by (cases "valid_format fmt")
     (auto simp: fresh_from_def attach_valid attach_invalid addHandler_def made_def)

lemma fresh_from_reset:
  "fresh_from (next_id s) lg (update_logger lg (\<lambda>l. l\<lparr>handlers := []\<rparr>) s)"
  by (simp add: fresh_from_def)

lemma and_then_snd:
  "P (snd r) \<Longrightarrow> (\<And>s. P s \<Longrightarrow> P (snd (f s))) \<Longrightarrow> P (snd (and_then r f))"
  by (cases "fst r") (simp_all add: and_then_def)

lemma and_then_ok:
  "fst (and_then r f) = Inr () \<longleftrightarrow> fst r = Inr () \<and> fst (f (snd r)) = Inr ()"
  by (cases "fst r") (auto simp: and_then_def)

lemma and_then_ok_snd: "fst r = Inr () \<Longrightarrow> and_then r f = f (snd r)"
  by (simp add: and_then_def)

lemma skip_simps [simp]: "fst (skip s) = Inr ()" "snd (skip s) = s"
  by (simp_all add: skip_def)

lemma configure_invariant:
  assumes start: "P (update_logger lg (\<lambda>l. l\<lparr>handlers := []\<rparr>)
                      (update_logger lg (\<lambda>l. l\<lparr>level := verbosity_value lv\<rparr>) s))"
    and step: "\<And>t k lvl cls fmt. P t \<Longrightarrow> P (snd (attach lg k lvl cls fmt t))"
  shows "P (snd (configure e lg lv f profiling sse ev s))"
proof -
  let ?s0 = "update_logger lg (\<lambda>l. l\<lparr>handlers := []\<rparr>)
               (update_logger lg (\<lambda>l. l\<lparr>level := verbosity_value lv\<rparr>) s)"
  let ?t = "''%(asctime)s:'' @ f"
  let ?lvl = "verbosity_value lv"
  have seq: "\<And>r g. P (snd r) \<Longrightarrow> (\<And>t. P t \<Longrightarrow> P (snd (g t))) \<Longrightarrow> P (snd (and_then r g))"
    by (rule and_then_snd)
  have first: "P (snd (case ev of
                  Some x \<Rightarrow> attach lg (EventHandler x) (Some ?lvl) ColorFormatter f ?s0
                | None \<Rightarrow> skip ?s0))"
    by (cases ev) (simp_all add: start step)
  have logfile: "\<And>t. P t \<Longrightarrow>
      P (snd (if environ e ''JINA_LOG_FORMAT'' = Some ''TXT''
              then attach lg (FileHandler (''jina-'' @ uptime e @ ''.log'') True) None PlainFormatter ?t t
              else if environ e ''JINA_LOG_FORMAT'' = Some ''JSON''
              then attach lg (FileHandler (''jina-'' @ uptime e @ ''.json'') True) None JsonFormatter ?t t
              else skip t))"
    by (simp add: step)
  have console: "\<And>t. P t \<Longrightarrow>
      P (snd (and_then (attach lg (StreamHandler stdout) (Some ?lvl) ColorFormatter f t)
               (\<lambda>s. if environ e ''JINA_LOG_FORMAT'' = Some ''TXT''
                  then attach lg (FileHandler (''jina-'' @ uptime e @ ''.log'') True) None PlainFormatter ?t s
                  else if environ e ''JINA_LOG_FORMAT'' = Some ''JSON''
                  then attach lg (FileHandler (''jina-'' @ uptime e @ ''.json'') True) None JsonFormatter ?t s
                  else skip s)))"
    by (rule seq) (simp_all only: step logfile)
  have plain: "\<And>t. P t \<Longrightarrow>
      P (snd (and_then
                (if sse then attach lg (QueueHandler log_queue) (Some ?lvl) JsonFormatter ?t t else skip t)
                (\<lambda>s. and_then (attach lg (StreamHandler stdout) (Some ?lvl) ColorFormatter f s)
                   (\<lambda>s. if environ e ''JINA_LOG_FORMAT'' = Some ''TXT''
                      then attach lg (FileHandler (''jina-'' @ uptime e @ ''.log'') True) None PlainFormatter ?t s
                      else if environ e ''JINA_LOG_FORMAT'' = Some ''JSON''
                      then attach lg (FileHandler (''jina-'' @ uptime e @ ''.json'') True) None JsonFormatter ?t s
                      else skip s))))"
  proof (rule seq)
    fix t assume "P t"
    then show "P (snd (if sse then attach lg (QueueHandler log_queue) (Some ?lvl) JsonFormatter ?t t else skip t))"
      by (simp add: step)
  qed (rule console)
  have prof: "\<And>t. P t \<Longrightarrow>
      P (snd (and_then
                (attach lg (FileHandler (''jina-profile-'' @ uptime e @ ''.json'') True) None ProfileFormatter ?t t)
                (\<lambda>s. if sse then attach lg (QueueHandler profile_queue) (Some ?lvl) JsonFormatter ?t s
                      else skip s)))"
  proof (rule seq)
    fix t assume "P t"
    then show "P (snd (attach lg (FileHandler (''jina-profile-'' @ uptime e @ ''.json'') True) None ProfileFormatter ?t t))"
      by (rule step)
  next
    fix t assume "P t"
    then show "P (snd (if sse then attach lg (QueueHandler profile_queue) (Some ?lvl) JsonFormatter ?t t else skip t))"
      by (simp add: step)
  qed
  show ?thesis
    unfolding configure_def Let_def
  proof (rule seq [OF first])
    fix t assume t: "P t"
    show "P (snd (if profiling
        then and_then
                (attach lg (FileHandler (''jina-profile-'' @ uptime e @ ''.json'') True) None ProfileFormatter ?t t)
                (\<lambda>s. if sse then attach lg (QueueHandler profile_queue) (Some ?lvl) JsonFormatter ?t s
                      else skip s)
        else and_then
                (if sse then attach lg (QueueHandler log_queue) (Some ?lvl) JsonFormatter ?t t else skip t)
                (\<lambda>s. and_then (attach lg (StreamHandler stdout) (Some ?lvl) ColorFormatter f s)
                   (\<lambda>s. if environ e ''JINA_LOG_FORMAT'' = Some ''TXT''
                      then attach lg (FileHandler (''jina-'' @ uptime e @ ''.log'') True) None PlainFormatter ?t s
                      else if environ e ''JINA_LOG_FORMAT'' = Some ''JSON''
                      then attach lg (FileHandler (''jina-'' @ uptime e @ ''.json'') True) None JsonFormatter ?t s
                      else skip s))))"
      using prof [OF t] plain [OF t] by (cases profiling) (simp_all only: if_True if_False)
  qed
qed

lemma fresh_from_configure: "fresh_from (next_id s) lg (snd (configure e lg lv f profiling sse ev s))"
proof (rule configure_invariant)
  show "fresh_from (next_id s) lg (update_logger lg (\<lambda>l. l\<lparr>handlers := []\<rparr>)
          (update_logger lg (\<lambda>l. l\<lparr>level := verbosity_value lv\<rparr>) s))"
    using fresh_from_reset [of "update_logger lg (\<lambda>l. l\<lparr>level := verbosity_value lv\<rparr>) s" lg]
    by simp
qed (rule fresh_from_attach)

lemma root_configure_named: "root (snd (configure e (Named nm) lv f profiling sse ev s)) = root s"
  by (rule configure_invariant [where P = "\<lambda>t. root t = root s"]) simp_all

lemma configure_valid:
  "valid_format f \<Longrightarrow> fst (configure e lg lv f profiling sse ev s) = Inr ()"
  unfolding configure_def Let_def
  by (cases ev) (simp_all add: and_then_ok fst_attach valid_timed)

lemma and_then_first:
  assumes "fst (and_then r g) = Inr ()"
    and "fst r = Inr () \<Longrightarrow> Q (snd r)"
    and "\<And>t. Q t \<Longrightarrow> Q (snd (g t))"
  shows "Q (snd (and_then r g))"
  using assms by (simp add: and_then_ok and_then_ok_snd)

lemma and_then_second:
  assumes "fst (and_then r g) = Inr ()"
    and "\<And>t. fst (g t) = Inr () \<Longrightarrow> Q (snd (g t))"
  shows "Q (snd (and_then r g))"
  using assms by (simp add: and_then_ok and_then_ok_snd)

lemma configure_nonempty:
  assumes ok: "fst (configure e lg lv f profiling sse ev s) = Inr ()"
  shows "handlers (the_logger (snd (configure e lg lv f profiling sse ev s)) lg) \<noteq> []"
proof -
  let ?Q = "\<lambda>t. handlers (the_logger t lg) \<noteq> []"
  let ?t = "''%(asctime)s:'' @ f"
  let ?lvl = "verbosity_value lv"
  let ?logfile = "\<lambda>s. if environ e ''JINA_LOG_FORMAT'' = Some ''TXT''
                  then attach lg (FileHandler (''jina-'' @ uptime e @ ''.log'') True) None PlainFormatter ?t s
                  else if environ e ''JINA_LOG_FORMAT'' = Some ''JSON''
                  then attach lg (FileHandler (''jina-'' @ uptime e @ ''.json'') True) None JsonFormatter ?t s
                  else skip s"
  let ?console = "\<lambda>s. and_then (attach lg (StreamHandler stdout) (Some ?lvl) ColorFormatter f s) ?logfile"
  let ?plain = "\<lambda>t. and_then
                (if sse then attach lg (QueueHandler log_queue) (Some ?lvl) JsonFormatter ?t t else skip t)
                ?console"
  let ?queue = "\<lambda>s. if sse then attach lg (QueueHandler profile_queue) (Some ?lvl) JsonFormatter ?t s
                      else skip s"
  let ?prof = "\<lambda>t. and_then
                (attach lg (FileHandler (''jina-profile-'' @ uptime e @ ''.json'') True) None ProfileFormatter ?t t)
                ?queue"
  have keep_logfile: "\<And>t. ?Q t \<Longrightarrow> ?Q (snd (?logfile t))"
    by (simp add: attach_keeps_nonempty)
  have keep_queue: "\<And>t. ?Q t \<Longrightarrow> ?Q (snd (?queue t))"
    by (simp add: attach_keeps_nonempty)
  have console: "\<And>t. fst (?console t) = Inr () \<Longrightarrow> ?Q (snd (?console t))"
    by (rule and_then_first [where Q = ?Q]) (simp_all add: attach_nonempty keep_logfile)
  have plain: "\<And>t. fst (?plain t) = Inr () \<Longrightarrow> ?Q (snd (?plain t))"
    by (rule and_then_second [where Q = ?Q]) (simp_all add: console)
  have prof: "\<And>t. fst (?prof t) = Inr () \<Longrightarrow> ?Q (snd (?prof t))"
    by (rule and_then_first [where Q = ?Q]) (simp_all add: attach_nonempty keep_queue)
  have body: "\<And>t. fst (if profiling then ?prof t else ?plain t) = Inr () \<Longrightarrow>
                  ?Q (snd (if profiling then ?prof t else ?plain t))"
  proof -
    fix t
    assume a: "fst (if profiling then ?prof t else ?plain t) = Inr ()"
    show "?Q (snd (if profiling then ?prof t else ?plain t))"
    proof (cases profiling)
      case True
      with a have "fst (?prof t) = Inr ()" by simp
      from prof [OF this] True show ?thesis by simp
    next
      case False
      with a have "fst (?plain t) = Inr ()" by simp
      from plain [OF this] False show ?thesis by simp
    qed
  qed
  show ?thesis
    using ok unfolding configure_def Let_def
    by (rule and_then_second [where Q = ?Q]) (rule body)
qed

lemma getLogger_named:
  "\<not> is_root_name ctx \<Longrightarrow> fst (getLogger ctx s) = Named ctx \<and> root (snd (getLogger ctx s)) = root s \<and>
     next_id (snd (getLogger ctx s)) = next_id s \<and>
     the_logger (snd (getLogger ctx s)) (Named ctx) = the_logger s (Named ctx)"
  by (simp add: getLogger_def the_logger_def split: option.splits)

lemma getLogger_root: "is_root_name ctx \<Longrightarrow> getLogger ctx s = (Root, s)"
  by (simp add: getLogger_def)

lemma get_logger_posix:
  assumes "os_name e \<noteq> ''nt''" "from_string (environ_get e ''JINA_VERBOSITY'' ''INFO'') = Inr lv"
  shows "fst (get_logger e ctx n profiling sse fmt ev s) =
         (if handlers (the_logger (prepared ctx s) (fst (getLogger ctx (remove_root_handlers s)))) = []
          then (case fst (configure e (fst (getLogger ctx (remove_root_handlers s))) lv
                            (chosen_fmt_str ctx n fmt) profiling sse ev (prepared ctx s)) of
                  Inl err \<Rightarrow> Inl err
                | Inr u \<Rightarrow> Inr (Logger (fst (getLogger ctx (remove_root_handlers s)))))
          else Inr (Logger (fst (getLogger ctx (remove_root_handlers s)))))"
    and "snd (get_logger e ctx n profiling sse fmt ev s) =
         (if handlers (the_logger (prepared ctx s) (fst (getLogger ctx (remove_root_handlers s)))) = []
          then snd (configure e (fst (getLogger ctx (remove_root_handlers s))) lv
                      (chosen_fmt_str ctx n fmt) profiling sse ev (prepared ctx s))
          else prepared ctx s)"
  using assms
  by (simp_all add: get_logger_def prepared_def chosen_fmt_str_def Let_def
      split: prod.splits sum.splits)

lemma the_logger_remove_root [simp]:
  "the_logger (remove_root_handlers s) (Named nm) = the_logger s (Named nm)"
  by (simp add: the_logger_def remove_root_handlers_def)

lemma prepared_named:
  assumes "\<not> is_root_name ctx"
  shows "handlers (the_logger (prepared ctx s) (Named ctx)) = handlers (the_logger s (Named ctx))"
    and "handlers (root (prepared ctx s)) = []"
    and "next_id (prepared ctx s) = next_id s"
  using getLogger_named [OF assms, of "remove_root_handlers s"]
  by (simp_all add: prepared_def) (simp_all add: remove_root_handlers_def)

lemma prepared_root:
  assumes "is_root_name ctx"
  shows "handlers (the_logger (prepared ctx s) Root) = []"
    and "next_id (prepared ctx s) = next_id s"
  using assms
  by (simp_all add: prepared_def getLogger_root)
     (simp_all add: remove_root_handlers_def the_logger_def)

lemma valid_chosen: "fmt = None \<or> fmt = Some [] \<Longrightarrow> valid_format (chosen_fmt_str ctx n fmt)"
  by (auto simp: chosen_fmt_str_def valid_default)

text \<open>
  C4, as amended. Not on Windows, with a valid \<^verbatim>\<open>JINA_VERBOSITY\<close> (or none) and
  \<^verbatim>\<open>JINA_LOG_FORMAT=JSON\<close>, \<open>get_logger\<close> with \<open>profiling=False\<close>, \<open>sse=False\<close> and no
  event object, for a logger that has no handlers yet (or the root logger, whose handlers
  the call removes first) and a template that \<^verbatim>\<open>logging.Formatter\<close> accepts (the default
  one always is), returns a logger with exactly two handlers: a stream handler on standard
  output with a \<open>ColorFormatter\<close>, and a file handler with deferred opening
  (\<open>delay=True\<close>) with a \<open>JsonFormatter\<close>.
\<close>

theorem get_logger_json_sinks:
  "os_name e \<noteq> ''nt'' \<Longrightarrow> from_string (environ_get e ''JINA_VERBOSITY'' ''INFO'') = Inr lv \<Longrightarrow>
   environ e ''JINA_LOG_FORMAT'' = Some ''JSON'' \<Longrightarrow>
   is_root_name ctx \<or> handlers (the_logger s (Named ctx)) = [] \<Longrightarrow>
   valid_format (chosen_fmt_str ctx n fmt) \<Longrightarrow>
   \<exists>lg s'. get_logger e ctx n False False fmt None s = (Inr (Logger lg), s') \<and>
     handlers (the_logger s' lg) =
       [\<lparr>hid = next_id s, kind = StreamHandler stdout, hlevel = verbosity_value lv,
         hformatter = Some (ColorFormatter (chosen_fmt_str ctx n fmt))\<rparr>,
        \<lparr>hid = Suc (next_id s), kind = FileHandler (''jina-'' @ uptime e @ ''.json'') True, hlevel = 0,
         hformatter = Some (JsonFormatter (''%(asctime)s:'' @ chosen_fmt_str ctx n fmt))\<rparr>]"
proof -
  assume posix: "os_name e \<noteq> ''nt''"
    and lv: "from_string (environ_get e ''JINA_VERBOSITY'' ''INFO'') = Inr lv"
    and js: "environ e ''JINA_LOG_FORMAT'' = Some ''JSON''"
    and new: "is_root_name ctx \<or> handlers (the_logger s (Named ctx)) = []"
    and valid: "valid_format (chosen_fmt_str ctx n fmt)"
  let ?lg = "fst (getLogger ctx (remove_root_handlers s))"
  let ?p = "prepared ctx s"
  let ?F = "chosen_fmt_str ctx n fmt"
  let ?c = "configure e ?lg lv ?F False False None ?p"
  have "handlers (the_logger ?p ?lg) = [] \<and> next_id ?p = next_id s"
  proof (cases "is_root_name ctx")
    case True
    then show ?thesis using prepared_root [OF True, of s] by (simp add: getLogger_root)
  next
    case False
    then have "?lg = Named ctx" using getLogger_named [OF False] by simp
    then show ?thesis using False new prepared_named [OF False, of s] by simp
  qed
  then have none: "handlers (the_logger ?p ?lg) = []" and nid: "next_id ?p = next_id s"
    by simp_all
  have ok: "fst ?c = Inr ()" using valid by (rule configure_valid)
  have "get_logger e ctx n False False fmt None s = (Inr (Logger ?lg), snd ?c)"
    using get_logger_posix [OF posix lv, of ctx n False False fmt None s] none ok
    by (simp add: prod_eq_iff)
  moreover have "handlers (the_logger (snd ?c) ?lg) =
       [\<lparr>hid = next_id s, kind = StreamHandler stdout, hlevel = verbosity_value lv,
         hformatter = Some (ColorFormatter ?F)\<rparr>,
        \<lparr>hid = Suc (next_id s), kind = FileHandler (''jina-'' @ uptime e @ ''.json'') True, hlevel = 0,
         hformatter = Some (JsonFormatter (''%(asctime)s:'' @ ?F))\<rparr>]"
    using js nid valid
    by (simp add: configure_def Let_def and_then_def skip_def attach_valid valid_timed
        addHandler_def made_def)
  ultimately show ?thesis by blast
qed

text \<open>
  C5, as amended. For a context name that is not a name of the root logger (the empty
  name, or \<^verbatim>\<open>root\<close>), not on Windows: a first call of \<open>get_logger\<close> returns the logger of
  that name (it does whenever its template is accepted), and after a first call that has
  returned, a second call with the same context name, whatever its other arguments,
  returns the same logger with the handlers it had after the first call; none is added
  or replaced.
\<close>

theorem get_logger_idempotent:
  "\<not> is_root_name ctx \<Longrightarrow> os_name e \<noteq> ''nt'' \<Longrightarrow> os_name e' \<noteq> ''nt'' \<Longrightarrow>
   from_string (environ_get e ''JINA_VERBOSITY'' ''INFO'') = Inr lv \<Longrightarrow>
   from_string (environ_get e' ''JINA_VERBOSITY'' ''INFO'') = Inr lv' \<Longrightarrow>
   (valid_format (chosen_fmt_str ctx n fmt) \<longrightarrow>
      fst (get_logger e ctx n profiling sse fmt ev s) = Inr (Logger (Named ctx))) \<and>
   (fst (get_logger e ctx n profiling sse fmt ev s) = Inr (Logger (Named ctx)) \<longrightarrow>
      fst (get_logger e' ctx n' profiling' sse' fmt' ev'
             (snd (get_logger e ctx n profiling sse fmt ev s))) = Inr (Logger (Named ctx)) \<and>
      handlers (the_logger (snd (get_logger e ctx n profiling sse fmt ev s)) (Named ctx)) \<noteq> [] \<and>
      handlers (the_logger
         (snd (get_logger e' ctx n' profiling' sse' fmt' ev'
                 (snd (get_logger e ctx n profiling sse fmt ev s)))) (Named ctx)) =
      handlers (the_logger (snd (get_logger e ctx n profiling sse fmt ev s)) (Named ctx)))"
proof -
  assume ctx: "\<not> is_root_name ctx" and posix: "os_name e \<noteq> ''nt''" "os_name e' \<noteq> ''nt''"
    and lv: "from_string (environ_get e ''JINA_VERBOSITY'' ''INFO'') = Inr lv"
    and lv': "from_string (environ_get e' ''JINA_VERBOSITY'' ''INFO'') = Inr lv'"
  have lg: "\<And>t. fst (getLogger ctx (remove_root_handlers t)) = Named ctx"
    using getLogger_named [OF ctx] by simp
  let ?r1 = "get_logger e ctx n profiling sse fmt ev s"
  let ?c = "configure e (Named ctx) lv (chosen_fmt_str ctx n fmt) profiling sse ev (prepared ctx s)"
  let ?r2 = "get_logger e' ctx n' profiling' sse' fmt' ev' (snd ?r1)"
  note r1 = get_logger_posix [OF posix(1) lv, of ctx n profiling sse fmt ev s, unfolded lg]
  note r2 = get_logger_posix [OF posix(2) lv', of ctx n' profiling' sse' fmt' ev' "snd ?r1", unfolded lg]
  have returns: "valid_format (chosen_fmt_str ctx n fmt) \<longrightarrow> fst ?r1 = Inr (Logger (Named ctx))"
    using configure_valid [of "chosen_fmt_str ctx n fmt" e "Named ctx" lv profiling sse ev "prepared ctx s"]
    by (simp add: r1(1))
  have again: "fst ?r1 = Inr (Logger (Named ctx)) \<longrightarrow>
      fst ?r2 = Inr (Logger (Named ctx)) \<and>
      handlers (the_logger (snd ?r1) (Named ctx)) \<noteq> [] \<and>
      handlers (the_logger (snd ?r2) (Named ctx)) = handlers (the_logger (snd ?r1) (Named ctx))"
  proof
    assume a: "fst ?r1 = Inr (Logger (Named ctx))"
    have ne: "handlers (the_logger (snd ?r1) (Named ctx)) \<noteq> []"
    proof (cases "handlers (the_logger (prepared ctx s) (Named ctx)) = []")
      case True
      with a have "fst ?c = Inr ()" by (simp add: r1(1) split: sum.splits)
      from configure_nonempty [OF this] True show ?thesis by (simp add: r1(2))
    next
      case False
      then show ?thesis by (simp add: r1(2))
    qed
    then have ne': "handlers (the_logger (prepared ctx (snd ?r1)) (Named ctx)) \<noteq> []"
      using prepared_named(1) [OF ctx, of "snd ?r1"] by simp
    have "fst ?r2 = Inr (Logger (Named ctx))" using ne' by (simp add: r2(1))
    moreover have "handlers (the_logger (snd ?r2) (Named ctx)) = handlers (the_logger (snd ?r1) (Named ctx))"
      using ne' prepared_named(1) [OF ctx, of "snd ?r1"] by (simp add: r2(2))
    ultimately show "fst ?r2 = Inr (Logger (Named ctx)) \<and>
      handlers (the_logger (snd ?r1) (Named ctx)) \<noteq> [] \<and>
      handlers (the_logger (snd ?r2) (Named ctx)) = handlers (the_logger (snd ?r1) (Named ctx))"
      using ne by simp
  qed
  from returns again show ?thesis by (rule conjI)
qed

text \<open>
  C9. Not on Windows, after every call of \<open>get_logger\<close> that gets past the reading of
  \<^verbatim>\<open>JINA_VERBOSITY\<close>, none of the handlers that the root logger had before the call is
  attached to it; for a logger other than the root logger (already configured or not) the
  root logger is left without handlers. This holds also when the call raises on a template
  that is not accepted; with an accepted template the call returns.
\<close>

theorem get_logger_clears_root:
  "os_name e \<noteq> ''nt'' \<Longrightarrow> from_string (environ_get e ''JINA_VERBOSITY'' ''INFO'') = Inr lv \<Longrightarrow>
   (\<not> is_root_name ctx \<longrightarrow>
      handlers (root (snd (get_logger e ctx n profiling sse fmt ev s))) = []) \<and>
   (\<forall>h\<in>set (handlers (root s)). hid h < next_id s \<longrightarrow>
      h \<notin> set (handlers (root (snd (get_logger e ctx n profiling sse fmt ev s))))) \<and>
   (valid_format (chosen_fmt_str ctx n fmt) \<longrightarrow>
      (\<exists>a. fst (get_logger e ctx n profiling sse fmt ev s) = Inr a))"
proof -
  assume posix: "os_name e \<noteq> ''nt''"
    and lv: "from_string (environ_get e ''JINA_VERBOSITY'' ''INFO'') = Inr lv"
  let ?lg = "fst (getLogger ctx (remove_root_handlers s))"
  let ?p = "prepared ctx s"
  let ?c = "configure e ?lg lv (chosen_fmt_str ctx n fmt) profiling sse ev ?p"
  let ?r = "get_logger e ctx n profiling sse fmt ev s"
  note r = get_logger_posix [OF posix lv, of ctx n profiling sse fmt ev s]
  have named: "\<not> is_root_name ctx \<longrightarrow> handlers (root (snd ?r)) = []"
  proof
    assume ctx: "\<not> is_root_name ctx"
    then have "?lg = Named ctx" using getLogger_named [OF ctx] by simp
    then show "handlers (root (snd ?r)) = []"
      using prepared_named(2) [OF ctx, of s] by (simp add: r(2) root_configure_named)
  qed
  have gone: "\<forall>h\<in>set (handlers (root s)). hid h < next_id s \<longrightarrow> h \<notin> set (handlers (root (snd ?r)))"
  proof (cases "is_root_name ctx")
    case False
    with named show ?thesis by simp
  next
    case True
    then have lg: "?lg = Root" by (simp add: getLogger_root)
    have p: "handlers (root ?p) = []" "next_id ?p = next_id s"
      using prepared_root [OF True, of s] by (simp_all add: the_logger_def)
    have "fresh_from (next_id ?p) Root (snd (configure e Root lv (chosen_fmt_str ctx n fmt) profiling sse ev ?p))"
      by (rule fresh_from_configure)
    then have "\<forall>h\<in>set (handlers (root (snd ?c))). next_id s \<le> hid h"
      using lg p by (simp add: fresh_from_def the_logger_def)
    then show ?thesis using lg p by (auto simp: r(2) the_logger_def)
  qed
  have returns: "valid_format (chosen_fmt_str ctx n fmt) \<longrightarrow> (\<exists>a. fst ?r = Inr a)"
    using configure_valid [of "chosen_fmt_str ctx n fmt" e ?lg lv profiling sse ev ?p]
    by (simp add: r(1))
  from named gone returns show ?thesis by simp
qed

theorem get_logger_json_sinks_witness:
  "os_name (sample_env (Some ''JSON'')) \<noteq> ''nt'' \<and>
   from_string (environ_get (sample_env (Some ''JSON'')) ''JINA_VERBOSITY'' ''INFO'') = Inr INFO \<and>
   environ (sample_env (Some ''JSON'')) ''JINA_LOG_FORMAT'' = Some ''JSON'' \<and>
   handlers (the_logger initial_logging (Named ''test'')) = [] \<and>
   valid_format (chosen_fmt_str ''test'' 10 None) \<and>
   sinks_after (get_logger (sample_env (Some ''JSON'')) ''test'' 10 False False None None initial_logging) =
     [\<lparr>hid = 0, kind = StreamHandler stdout, hlevel = 20,
       hformatter = Some (ColorFormatter
         ''      test@%(process)2d[%(levelname).1s][%(filename).3s:%(funcName).3s:%(lineno)3d]:%(message)s'')\<rparr>,
      \<lparr>hid = 1, kind = FileHandler ''jina-20200401.json'' True, hlevel = 0,
       hformatter = Some (JsonFormatter
         ''%(asctime)s:      test@%(process)2d[%(levelname).1s][%(filename).3s:%(funcName).3s:%(lineno)3d]:%(message)s'')\<rparr>]"
proof -
  let ?e = "sample_env (Some ''JSON'')"
  have 1: "os_name ?e \<noteq> ''nt''" by (simp add: sample_env_def)
  have 2: "from_string (environ_get ?e ''JINA_VERBOSITY'' ''INFO'') = Inr INFO"
    by (simp add: sample_env_def environ_get_def from_string_def)
  have 3: "environ ?e ''JINA_LOG_FORMAT'' = Some ''JSON''" by (simp add: sample_env_def)
  have 4: "handlers (the_logger initial_logging (Named ''test'')) = []"
    by (simp add: the_logger_def initial_logging_def new_logger_def)
  have 5: "is_root_name ''test'' \<or> handlers (the_logger initial_logging (Named ''test'')) = []"
    using 4 by simp
  have 6: "valid_format (chosen_fmt_str ''test'' 10 None)"
    by (rule valid_chosen) simp
  from get_logger_json_sinks [OF 1 2 3 5 6]
  have "sinks_after (get_logger ?e ''test'' 10 False False None None initial_logging) =
     [\<lparr>hid = 0, kind = StreamHandler stdout, hlevel = 20,
       hformatter = Some (ColorFormatter (chosen_fmt_str ''test'' 10 None))\<rparr>,
      \<lparr>hid = 1, kind = FileHandler (''jina-'' @ uptime ?e @ ''.json'') True, hlevel = 0,
       hformatter = Some (JsonFormatter (''%(asctime)s:'' @ chosen_fmt_str ''test'' 10 None))\<rparr>]"
    by (auto simp: sinks_after_def initial_logging_def)
  moreover have "replicate 6 CHR '' '' = ''      ''" by code_simp
  ultimately show ?thesis using 1 2 3 4 6
    by (simp add: chosen_fmt_str_def default_fmt_str_def sample_env_def)
qed

text \<open>
  C4 as it is written fails for a logger that has handlers already: \<^verbatim>\<open>test\<close>, acquired
  first with \<open>profiling=True\<close>, is returned unchanged by the call of the claim, with its
  one handler, the file handler with the \<open>ProfileFormatter\<close>.
\<close>

theorem configured_logger_returned_counterexample:
  "fst (get_logger (sample_env (Some ''JSON'')) ''test'' 10 False False None None
     (state_after (get_logger (sample_env (Some ''JSON'')) ''test'' 10 True False None None
        initial_logging))) = Inr (Logger (Named ''test'')) \<and>
   sinks_after (get_logger (sample_env (Some ''JSON'')) ''test'' 10 False False None None
     (state_after (get_logger (sample_env (Some ''JSON'')) ''test'' 10 True False None None
        initial_logging))) =
     [\<lparr>hid = 0, kind = FileHandler ''jina-profile-20200401.json'' True, hlevel = 0,
       hformatter = Some (ProfileFormatter
         ''%(asctime)s:      test@%(process)2d[%(levelname).1s][%(filename).3s:%(funcName).3s:%(lineno)3d]:%(message)s'')\<rparr>]"
  by code_simp

theorem get_logger_idempotent_witness:
  "\<not> is_root_name ''test'' \<and> os_name (sample_env None) \<noteq> ''nt'' \<and>
   from_string (environ_get (sample_env None) ''JINA_VERBOSITY'' ''INFO'') = Inr INFO \<and>
   valid_format (chosen_fmt_str ''test'' 10 None) \<and>
   sinks_after (get_logger (sample_env None) ''test'' 10 False False None None initial_logging) =
     [\<lparr>hid = 0, kind = StreamHandler stdout, hlevel = 20,
       hformatter = Some (ColorFormatter
         ''      test@%(process)2d[%(levelname).1s][%(filename).3s:%(funcName).3s:%(lineno)3d]:%(message)s'')\<rparr>] \<and>
   sinks_after (get_logger (sample_env None) ''test'' 10 True True (Some ''plain text'') None
     (state_after (get_logger (sample_env None) ''test'' 10 False False None None initial_logging))) =
   sinks_after (get_logger (sample_env None) ''test'' 10 False False None None initial_logging)"
proof -
  let ?e = "sample_env None"
  let ?r1 = "get_logger ?e ''test'' 10 False False None None initial_logging"
  let ?r2 = "get_logger ?e ''test'' 10 True True (Some ''plain text'') None (snd ?r1)"
  have 0: "\<not> is_root_name ''test''" by (simp add: is_root_name_def)
  have 1: "os_name ?e \<noteq> ''nt''" by (simp add: sample_env_def)
  have 2: "from_string (environ_get ?e ''JINA_VERBOSITY'' ''INFO'') = Inr INFO"
    by (simp add: sample_env_def environ_get_def from_string_def)
  have 3: "valid_format (chosen_fmt_str ''test'' 10 None)"
    by (rule valid_chosen) simp
  have 4: "sinks_after ?r1 =
     [\<lparr>hid = 0, kind = StreamHandler stdout, hlevel = 20,
       hformatter = Some (ColorFormatter
         ''      test@%(process)2d[%(levelname).1s][%(filename).3s:%(funcName).3s:%(lineno)3d]:%(message)s'')\<rparr>]"
    by code_simp
  from get_logger_idempotent [OF 0 1 1 2 2, of 10 None False False None initial_logging
      10 True True "Some ''plain text''" None] 3
  have a: "fst ?r1 = Inr (Logger (Named ''test''))"
    and b: "fst ?r2 = Inr (Logger (Named ''test''))"
    and c: "handlers (the_logger (snd ?r2) (Named ''test'')) = handlers (the_logger (snd ?r1) (Named ''test''))"
    by simp_all
  have "sinks_after (get_logger ?e ''test'' 10 True True (Some ''plain text'') None (state_after ?r1)) =
        sinks_after ?r1"
    using a b c by (simp add: sinks_after_def state_after_def)
  with 0 1 2 3 4 show ?thesis by simp
qed

text \<open>
  C5 as it is written, for every context name, fails for the empty name, for which
  \<^verbatim>\<open>logging.getLogger\<close> gives the root logger: each call first removes the handlers of the
  root logger and then finds the logger without handlers, so the second call constructs
  and attaches new handlers: another stream handler (and, called with \<open>sse=True\<close>, two
  handlers where the first call had left one).
\<close>

theorem root_logger_rebuilt_counterexample:
  "sinks_after (get_logger (sample_env None) [] 10 False False None None initial_logging) =
     [\<lparr>hid = 0, kind = StreamHandler stdout, hlevel = 20,
       hformatter = Some (ColorFormatter
         ''          @%(process)2d[%(levelname).1s][%(filename).3s:%(funcName).3s:%(lineno)3d]:%(message)s'')\<rparr>] \<and>
   sinks_after (get_logger (sample_env None) [] 10 False False None None
     (state_after (get_logger (sample_env None) [] 10 False False None None initial_logging))) =
     [\<lparr>hid = 1, kind = StreamHandler stdout, hlevel = 20,
       hformatter = Some (ColorFormatter
         ''          @%(process)2d[%(levelname).1s][%(filename).3s:%(funcName).3s:%(lineno)3d]:%(message)s'')\<rparr>] \<and>
   sinks_after (get_logger (sample_env None) [] 10 False True None None
     (state_after (get_logger (sample_env None) [] 10 False False None None initial_logging))) =
     [\<lparr>hid = 1, kind = QueueHandler log_queue, hlevel = 20,
       hformatter = Some (JsonFormatter
         ''%(asctime)s:          @%(process)2d[%(levelname).1s][%(filename).3s:%(funcName).3s:%(lineno)3d]:%(message)s'')\<rparr>,
      \<lparr>hid = 2, kind = StreamHandler stdout, hlevel = 20,
       hformatter = Some (ColorFormatter
         ''          @%(process)2d[%(levelname).1s][%(filename).3s:%(funcName).3s:%(lineno)3d]:%(message)s'')\<rparr>]"
  by code_simp

theorem get_logger_clears_root_witness:
  "os_name (sample_env None) \<noteq> ''nt'' \<and>
   from_string (environ_get (sample_env None) ''JINA_VERBOSITY'' ''INFO'') = Inr INFO \<and>
   handlers (root sample_logging) =
     [\<lparr>hid = 0, kind = StreamHandler stderr, hlevel = 0, hformatter = None\<rparr>] \<and>
   next_id sample_logging = 2 \<and>
   sinks_after (get_logger (sample_env None) ''test'' 10 False False None None sample_logging) =
     handlers (the_logger sample_logging (Named ''test'')) \<and>
   handlers (root (state_after
     (get_logger (sample_env None) ''test'' 10 False False None None sample_logging))) = [] \<and>
   fst (get_logger (sample_env None) ''other'' 10 False False (Some ''plain text'') None sample_logging)
     = Inl (ValueError ''plain text'') \<and>
   handlers (root (state_after
     (get_logger (sample_env None) ''other'' 10 False False (Some ''plain text'') None sample_logging))) = []"
proof -
  let ?e = "sample_env None"
  have 1: "os_name ?e \<noteq> ''nt''" by (simp add: sample_env_def)
  have 2: "from_string (environ_get ?e ''JINA_VERBOSITY'' ''INFO'') = Inr INFO"
    by (simp add: sample_env_def environ_get_def from_string_def)
  have 3: "handlers (root sample_logging) =
     [\<lparr>hid = 0, kind = StreamHandler stderr, hlevel = 0, hformatter = None\<rparr>]"
    "next_id sample_logging = 2"
    by (simp_all add: sample_logging_def)
  have 4: "sinks_after (get_logger ?e ''test'' 10 False False None None sample_logging) =
     handlers (the_logger sample_logging (Named ''test''))"
    by code_simp
  have 5: "fst (get_logger ?e ''other'' 10 False False (Some ''plain text'') None sample_logging)
     = Inl (ValueError ''plain text'')"
    by code_simp
  have t: "\<not> is_root_name ''test''" and o: "\<not> is_root_name ''other''"
    by (simp_all add: is_root_name_def)
  from get_logger_clears_root [OF 1 2, of "''test''" 10 False False None None sample_logging] t
  have 6: "handlers (root (state_after
     (get_logger ?e ''test'' 10 False False None None sample_logging))) = []"
    by (simp add: state_after_def)
  from get_logger_clears_root [OF 1 2, of "''other''" 10 False False "Some ''plain text''" None
      sample_logging] o
  have 7: "handlers (root (state_after
     (get_logger ?e ''other'' 10 False False (Some ''plain text'') None sample_logging))) = []"
    by (simp add: state_after_def)
  from 1 2 3 4 5 6 7 show ?thesis by simp
qed

end
